theory Spec2Isabelle
  imports Complex_Main
begin

section \<open>Numbers\<close>

text \<open>
  The library \<^verbatim>\<open>src/lib/indicators.ts\<close> computes the Average True Range and the
  Supertrend indicator over a list of OHLC bars; the orchestrator of the market-data
  route runs it once per timeframe.

  Prices, bands and factors are JavaScript numbers, that is IEEE doubles.  A number is
  modelled as NaN, one of the two infinities, or a real.  An operation whose exact result
  has a magnitude of \<open>2 ^ 1024\<close> or more yields the infinity of its sign, as it does in
  doubles, and the special values combine as IEEE prescribes (\<open>Infinity * 0\<close>,
  \<open>Infinity - Infinity\<close> and \<open>0 / 0\<close> are NaN; a comparison with NaN is false).  What
  is not modelled is the rounding of a finite result and the sign of zero: a finite
  result is kept exact.  A real of magnitude \<open>2 ^ 1024\<close> or more is read as an infinity,
  as a literal of that size is.

  A number that counts or indexes (\<^verbatim>\<open>atrPeriod\<close>, the loop variable \<^verbatim>\<open>i\<close>) is an
  \<^typ>\<open>int\<close>, so that zero and negative periods are inputs of the model as they are of
  the code; a period that is not a whole number is not.
\<close>

datatype number = Finite real | PosInf | NegInf | NaN

definition overflowBound :: real where
  "overflowBound =
     179769313486231590772930519078902473361797697894230657273430081157732675805500963132708477322407536021120113879871393357658789768814416622492847430639474124377767893424865485276302219601246094119453082952085005768838150682342462881473913110540827237163350510684586298239947245938479716304835356329624224137216"

definition js_num :: "real \<Rightarrow> number" where
  "js_num x =
     (if overflowBound \<le> x then PosInf
      else if x \<le> - overflowBound then NegInf
      else Finite x)"

fun js_norm :: "number \<Rightarrow> number" where
  "js_norm (Finite x) = js_num x"
| "js_norm PosInf = PosInf"
| "js_norm NegInf = NegInf"
| "js_norm NaN = NaN"

fun js_neg :: "number \<Rightarrow> number" where
  "js_neg (Finite x) = Finite (- x)"
| "js_neg PosInf = NegInf"
| "js_neg NegInf = PosInf"
| "js_neg NaN = NaN"

fun js_sign :: "number \<Rightarrow> int" where
  "js_sign (Finite x) = (if 0 < x then 1 else if x < 0 then - 1 else 0)"
| "js_sign PosInf = 1"
| "js_sign NegInf = - 1"
| "js_sign NaN = 0"

text \<open>The sum of two operands that are already read.\<close>

fun raw_add :: "number \<Rightarrow> number \<Rightarrow> number" where
  "raw_add NaN b = NaN"
| "raw_add (Finite x) NaN = NaN"
| "raw_add PosInf NaN = NaN"
| "raw_add NegInf NaN = NaN"
| "raw_add PosInf NegInf = NaN"
| "raw_add NegInf PosInf = NaN"
| "raw_add PosInf (Finite y) = PosInf"
| "raw_add PosInf PosInf = PosInf"
| "raw_add (Finite x) PosInf = PosInf"
| "raw_add NegInf (Finite y) = NegInf"
| "raw_add NegInf NegInf = NegInf"
| "raw_add (Finite x) NegInf = NegInf"
| "raw_add (Finite x) (Finite y) = js_num (x + y)"

definition js_add :: "number \<Rightarrow> number \<Rightarrow> number" where
  "js_add a b = raw_add (js_norm a) (js_norm b)"

definition js_sub :: "number \<Rightarrow> number \<Rightarrow> number" where
  "js_sub a b = js_add a (js_neg b)"

text \<open>
  The product: of two reals it is their product, read again; with an infinity it is the
  infinity of the product of the signs, and NaN when the other factor is zero.
\<close>

fun raw_mul :: "number \<Rightarrow> number \<Rightarrow> number" where
  "raw_mul NaN b = NaN"
| "raw_mul (Finite x) NaN = NaN"
| "raw_mul PosInf NaN = NaN"
| "raw_mul NegInf NaN = NaN"
| "raw_mul (Finite x) (Finite y) = js_num (x * y)"
| "raw_mul a b =
     (if js_sign a * js_sign b = 0 then NaN
      else if 0 < js_sign a * js_sign b then PosInf else NegInf)"

definition js_mul :: "number \<Rightarrow> number \<Rightarrow> number" where
  "js_mul a b = raw_mul (js_norm a) (js_norm b)"

text \<open>
  The quotient.  A zero divisor is the positive zero (the only zero divisor of the code
  is a period of 0).
\<close>

fun raw_div :: "number \<Rightarrow> number \<Rightarrow> number" where
  "raw_div NaN b = NaN"
| "raw_div (Finite x) NaN = NaN"
| "raw_div PosInf NaN = NaN"
| "raw_div NegInf NaN = NaN"
| "raw_div (Finite x) (Finite y) =
     (if y = 0 then (if x = 0 then NaN else if 0 < x then PosInf else NegInf)
      else js_num (x / y))"
| "raw_div (Finite x) PosInf = Finite 0"
| "raw_div (Finite x) NegInf = Finite 0"
| "raw_div PosInf (Finite y) = (if 0 \<le> y then PosInf else NegInf)"
| "raw_div NegInf (Finite y) = (if 0 \<le> y then NegInf else PosInf)"
| "raw_div PosInf PosInf = NaN"
| "raw_div PosInf NegInf = NaN"
| "raw_div NegInf PosInf = NaN"
| "raw_div NegInf NegInf = NaN"

definition js_div :: "number \<Rightarrow> number \<Rightarrow> number" where
  "js_div a b = raw_div (js_norm a) (js_norm b)"

text \<open>\<^verbatim>\<open>Math.abs\<close>.\<close>

fun raw_abs :: "number \<Rightarrow> number" where
  "raw_abs (Finite x) = Finite \<bar>x\<bar>"
| "raw_abs PosInf = PosInf"
| "raw_abs NegInf = PosInf"
| "raw_abs NaN = NaN"

definition js_abs :: "number \<Rightarrow> number" where
  "js_abs a = raw_abs (js_norm a)"

text \<open>
  The comparisons \<^verbatim>\<open><\<close>, \<^verbatim>\<open><=\<close>, \<^verbatim>\<open>>\<close> and \<^verbatim>\<open>>=\<close>.  A number that is not NaN has a place
  in the order: the negative infinity, then the reals, then the positive infinity.  A
  comparison with NaN is false.
\<close>

fun raw_place :: "number \<Rightarrow> (int \<times> real) option" where
  "raw_place (Finite x) = Some (0, x)"
| "raw_place PosInf = Some (1, 0)"
| "raw_place NegInf = Some (- 1, 0)"
| "raw_place NaN = None"

definition js_place :: "number \<Rightarrow> (int \<times> real) option" where
  "js_place a = raw_place (js_norm a)"

definition js_lt :: "number \<Rightarrow> number \<Rightarrow> bool" where
  "js_lt a b =
     (case (js_place a, js_place b) of
        (Some (i, x), Some (j, y)) \<Rightarrow> i < j \<or> (i = j \<and> x < y)
      | _ \<Rightarrow> False)"

definition js_le :: "number \<Rightarrow> number \<Rightarrow> bool" where
  "js_le a b =
     (case (js_place a, js_place b) of
        (Some (i, x), Some (j, y)) \<Rightarrow> i < j \<or> (i = j \<and> x \<le> y)
      | _ \<Rightarrow> False)"

definition js_gt :: "number \<Rightarrow> number \<Rightarrow> bool" where
  "js_gt a b = js_lt b a"

definition js_ge :: "number \<Rightarrow> number \<Rightarrow> bool" where
  "js_ge a b = js_le b a"

text \<open>\<^verbatim>\<open>Math.max\<close> of two numbers: NaN when either is NaN.\<close>

definition js_max :: "number \<Rightarrow> number \<Rightarrow> number" where
  "js_max a b =
     (if js_norm a = NaN \<or> js_norm b = NaN then NaN
      else if js_lt a b then js_norm b else js_norm a)"

section \<open>Data model of the indicator library\<close>

record OHLCData =
  openPrice :: number
  high :: number
  low :: number
  close :: number
  volume :: number
  time :: string

datatype direction = Up | Down

datatype signal = Buy | Sell | Hold

record SupertrendResult =
  "value" :: number
  direction :: direction
  signal :: signal
  atr :: number
  basicUpperBand :: number
  basicLowerBand :: number

record SupertrendConfig =
  atrPeriod :: int
  factor :: number

text \<open>
  The outcomes of a call that are not a returned value.  \<open>InsufficientData c n k\<close> is the
  \<^verbatim>\<open>Error\<close> thrown by calculation \<open>c\<close> with the message "Need at least \<open>n\<close> periods, got
  \<open>k\<close>".  \<open>TypeError\<close> is what JavaScript throws when a property of \<^verbatim>\<open>undefined\<close> is read.
  \<open>UndefinedValue\<close> is not an exception: it marks a run in which the source would store
  \<^verbatim>\<open>undefined\<close> in a field that holds a number, which the record of the model cannot
  express; the model stops there.  No run of \<^verbatim>\<open>calculateSupertrend\<close> reaches it
  (\<open>calculateSupertrend_not_UndefinedValue\<close> below).
\<close>

datatype error =
    InsufficientData string int nat
  | TypeError
  | UndefinedValue

text \<open>Reading \<^verbatim>\<open>xs[i]\<close>: \<^verbatim>\<open>undefined\<close> outside the array, also for a negative index.\<close>

definition js_nth :: "'a list \<Rightarrow> int \<Rightarrow> 'a option" where
  "js_nth xs i = (if 0 \<le> i \<and> i < int (length xs) then Some (xs ! nat i) else None)"

text \<open>Reading \<^verbatim>\<open>xs[xs.length - 1]\<close>.\<close>

definition js_last :: "'a list \<Rightarrow> 'a option" where
  "js_last xs = js_nth xs (int (length xs) - 1)"

text \<open>A value read from an array of numbers, used in arithmetic: \<^verbatim>\<open>undefined\<close> acts as NaN.\<close>

definition js_operand :: "number option \<Rightarrow> number" where
  "js_operand v = (case v of None \<Rightarrow> NaN | Some x \<Rightarrow> x)"

text \<open>A count used in arithmetic.\<close>

definition js_int :: "int \<Rightarrow> number" where
  "js_int n = Finite (real_of_int n)"

section \<open>True range and average true range\<close>

fun calculateTrueRange :: "OHLCData \<Rightarrow> OHLCData option \<Rightarrow> number" where
  "calculateTrueRange current None = js_sub (high current) (low current)"
| "calculateTrueRange current (Some previous) =
     (let tr1 = js_sub (high current) (low current);
          tr2 = js_abs (js_sub (high current) (close previous));
          tr3 = js_abs (js_sub (low current) (close previous))
      in js_max (js_max tr1 tr2) tr3)"

text \<open>The first loop of \<^verbatim>\<open>calculateATR\<close>: one true range per bar, in order.\<close>

definition trueRangesOf :: "OHLCData list \<Rightarrow> number list" where
  "trueRangesOf ohlcData =
     map (\<lambda>i. calculateTrueRange (ohlcData ! i)
                 (if 0 < i then Some (ohlcData ! (i - 1)) else None))
         [0..<length ohlcData]"

text \<open>
  The second loop adds \<^verbatim>\<open>trueRanges[0]\<close>, ..., \<^verbatim>\<open>trueRanges[period - 1]\<close> to \<^verbatim>\<open>sum\<close>,
  starting from 0.  It runs after the length check, so every index is inside the array;
  for a period of zero or less it does not run at all.
\<close>

definition seedSum :: "number list \<Rightarrow> int \<Rightarrow> number" where
  "seedSum trueRanges period =
     foldl (\<lambda>sum i. js_add sum (trueRanges ! i)) (Finite 0) [0..<nat period]"

text \<open>The third loop: Wilder's smoothing, from \<^verbatim>\<open>i = period\<close> to the end.\<close>

function atrLoop :: "number list \<Rightarrow> int \<Rightarrow> int \<Rightarrow> number list \<Rightarrow> number list" where
  "atrLoop trueRanges period i atrValues =
     (if i < int (length trueRanges) then
        (let previousATR = js_operand (js_last atrValues);
             currentTR = js_operand (js_nth trueRanges i);
             newATR = js_div (js_add (js_mul previousATR (js_int (period - 1))) currentTR)
                             (js_int period)
         in atrLoop trueRanges period (i + 1) (atrValues @ [newATR]))
      else atrValues)"
  by pat_completeness auto
termination
  by (relation "measure (\<lambda>(trueRanges, period, i, atrValues). nat (int (length trueRanges) - i))")
     auto

definition calculateATR :: "OHLCData list \<Rightarrow> int \<Rightarrow> error + number list" where
  "calculateATR ohlcData period =
     (if int (length ohlcData) < period
      then Inl (InsufficientData ''ATR'' period (length ohlcData))
      else
        let trueRanges = trueRangesOf ohlcData;
            sum = seedSum trueRanges period
        in Inr (atrLoop trueRanges period period [js_div sum (js_int period)]))"

section \<open>The Supertrend state machine\<close>

text \<open>
  The chain of \<^verbatim>\<open>if\<close>/\<^verbatim>\<open>else if\<close> that decides the direction of a bar after the first,
  with its conditions in the order of the source.  \<open>Fallback\<close> is the final \<^verbatim>\<open>else\<close>.
\<close>

datatype branch = StayUp | FlipDown | StayDown | FlipUp | Fallback

definition directionBranch :: "direction \<Rightarrow> number \<Rightarrow> number \<Rightarrow> number \<Rightarrow> branch" where
  "directionBranch previousDirection currentClose finalLowerBand finalUpperBand =
     (if previousDirection = Up \<and> js_gt currentClose finalLowerBand then StayUp
      else if previousDirection = Up \<and> js_le currentClose finalLowerBand then FlipDown
      else if previousDirection = Down \<and> js_lt currentClose finalUpperBand then StayDown
      else if previousDirection = Down \<and> js_ge currentClose finalUpperBand then FlipUp
      else Fallback)"

text \<open>What each branch assigns to \<^verbatim>\<open>direction\<close>, \<^verbatim>\<open>supertrendValue\<close> and \<^verbatim>\<open>signal\<close>.\<close>

definition branchOutcome ::
  "branch \<Rightarrow> number \<Rightarrow> number \<Rightarrow> number \<Rightarrow> number \<Rightarrow> direction \<times> number \<times> signal" where
  "branchOutcome b currentClose hl2 finalLowerBand finalUpperBand =
     (case b of
        StayUp \<Rightarrow> (Up, finalLowerBand, Hold)
      | FlipDown \<Rightarrow> (Down, finalUpperBand, Sell)
      | StayDown \<Rightarrow> (Down, finalUpperBand, Hold)
      | FlipUp \<Rightarrow> (Up, finalLowerBand, Buy)
      | Fallback \<Rightarrow>
          (let d = (if js_gt currentClose hl2 then Up else Down)
           in (d, (if d = Up then finalLowerBand else finalUpperBand), Hold)))"

text \<open>
  The block "apply band calculation rules" of the loop body: it runs for every bar after
  the first, and the final bands are the basic bands otherwise.  Reading
  \<^verbatim>\<open>ohlcData[i - 1].close\<close> or \<^verbatim>\<open>previousResult.basicUpperBand\<close> throws when the object is
  undefined.
\<close>

definition finalBands ::
  "OHLCData list \<Rightarrow> int \<Rightarrow> int \<Rightarrow> SupertrendResult list \<Rightarrow> number \<Rightarrow> number
     \<Rightarrow> error + number \<times> number" where
  "finalBands ohlcData period i results basicUpper basicLower =
     (if i > period - 1 then
        (case js_nth ohlcData (i - 1) of
           None \<Rightarrow> Inl TypeError
         | Some previousBar \<Rightarrow>
            (case js_last results of
               None \<Rightarrow> Inl TypeError
             | Some previousResult \<Rightarrow>
                (let previousClose = close previousBar
                 in Inr (if js_lt basicUpper (basicUpperBand previousResult)
                            \<or> js_gt previousClose (basicUpperBand previousResult)
                         then basicUpper else basicUpperBand previousResult,
                         if js_gt basicLower (basicLowerBand previousResult)
                            \<or> js_lt previousClose (basicLowerBand previousResult)
                         then basicLower else basicLowerBand previousResult))))
      else Inr (basicUpper, basicLower))"

text \<open>
  One pass through the body of the main loop, at bar index \<open>i\<close>, with the results pushed
  so far.  Reading \<^verbatim>\<open>current.high\<close> throws when \<^verbatim>\<open>ohlcData[i]\<close> is undefined, and
  \<^verbatim>\<open>previousResult.direction\<close> throws when no result has been pushed.  An ATR value read
  outside the array is \<^verbatim>\<open>undefined\<close> and would be stored as such.
\<close>

definition supertrendBar ::
  "OHLCData list \<Rightarrow> number list \<Rightarrow> int \<Rightarrow> number \<Rightarrow> int \<Rightarrow> SupertrendResult list
     \<Rightarrow> error + SupertrendResult" where
  "supertrendBar ohlcData atrValues period fac i results =
     (case js_nth ohlcData i of
        None \<Rightarrow> Inl TypeError
      | Some current \<Rightarrow>
         (case js_nth atrValues (i - (period - 1)) of
            None \<Rightarrow> Inl UndefinedValue
          | Some currentATR \<Rightarrow>
             (let hl2 = js_div (js_add (high current) (low current)) (Finite 2);
                  basicUpper = js_add hl2 (js_mul fac currentATR);
                  basicLower = js_sub hl2 (js_mul fac currentATR)
              in (case finalBands ohlcData period i results basicUpper basicLower of
                    Inl e \<Rightarrow> Inl e
                  | Inr (finalUpperBand, finalLowerBand) \<Rightarrow>
                      if i = period - 1 then
                        (let d = (if js_le (close current) finalLowerBand then Down else Up);
                             v = (if d = Up then finalLowerBand else finalUpperBand)
                         in Inr \<lparr>value = v, direction = d, signal = Hold, atr = currentATR,
                                  basicUpperBand = finalUpperBand,
                                  basicLowerBand = finalLowerBand\<rparr>)
                      else
                        (case js_last results of
                           None \<Rightarrow> Inl TypeError
                         | Some previousResult \<Rightarrow>
                            (let (d, v, s) =
                                   branchOutcome
                                     (directionBranch (direction previousResult)
                                        (close current) finalLowerBand finalUpperBand)
                                     (close current) hl2 finalLowerBand finalUpperBand
                             in Inr \<lparr>value = v, direction = d, signal = s,
                                      atr = currentATR,
                                      basicUpperBand = finalUpperBand,
                                      basicLowerBand = finalLowerBand\<rparr>))))))"

function supertrendLoop ::
  "OHLCData list \<Rightarrow> number list \<Rightarrow> int \<Rightarrow> number \<Rightarrow> int \<Rightarrow> SupertrendResult list
     \<Rightarrow> error + SupertrendResult list" where
  "supertrendLoop ohlcData atrValues period fac i results =
     (if i < int (length ohlcData) then
        (case supertrendBar ohlcData atrValues period fac i results of
           Inl e \<Rightarrow> Inl e
         | Inr r \<Rightarrow> supertrendLoop ohlcData atrValues period fac (i + 1) (results @ [r]))
      else Inr results)"
  by pat_completeness auto
termination
  by (relation "measure (\<lambda>(ohlcData, atrValues, period, fac, i, results).
                   nat (int (length ohlcData) - i))")
     auto

definition calculateSupertrend ::
  "OHLCData list \<Rightarrow> SupertrendConfig \<Rightarrow> error + SupertrendResult list" where
  "calculateSupertrend ohlcData config =
     (if int (length ohlcData) < atrPeriod config + 1
      then Inl (InsufficientData ''Supertrend'' (atrPeriod config + 1) (length ohlcData))
      else
        (case calculateATR ohlcData (atrPeriod config) of
           Inl e \<Rightarrow> Inl e
         | Inr atrValues \<Rightarrow>
             supertrendLoop ohlcData atrValues (atrPeriod config) (factor config)
               (atrPeriod config - 1) []))"

definition defaultConfig :: SupertrendConfig where
  "defaultConfig = \<lparr>atrPeriod = 10, factor = Finite 3.0\<rparr>"

text \<open>
  \<^verbatim>\<open>getLatestSupertrendSignal\<close> catches every exception and returns \<^verbatim>\<open>null\<close> (\<open>None\<close>);
  a missing configuration is replaced by the default of \<^verbatim>\<open>calculateSupertrend\<close>.
  \<open>UndefinedValue\<close> is no exception, so it is not caught.
\<close>

definition getLatestSupertrendSignal ::
  "OHLCData list \<Rightarrow> SupertrendConfig option \<Rightarrow> error + SupertrendResult option" where
  "getLatestSupertrendSignal ohlcData config =
     (case calculateSupertrend ohlcData
             (case config of None \<Rightarrow> defaultConfig | Some c \<Rightarrow> c) of
        Inl UndefinedValue \<Rightarrow> Inl UndefinedValue
      | Inl e \<Rightarrow> Inr None
      | Inr results \<Rightarrow> Inr (if length results > 0 then js_last results else None))"

section \<open>Conversion and validation helpers\<close>

text \<open>
  \<^verbatim>\<open>convertPricesToOHLC\<close> builds one bar per price.  The date of a bar is the entry of
  \<^verbatim>\<open>dates\<close> at its index when that entry exists and is not the empty string; otherwise
  it is computed from the clock, which the model takes as the parameter \<open>defaultTime\<close>
  (given the number of prices and the index).
\<close>

definition convertPricesToOHLC ::
  "(nat \<Rightarrow> nat \<Rightarrow> string) \<Rightarrow> number list \<Rightarrow> string list option \<Rightarrow> OHLCData list" where
  "convertPricesToOHLC defaultTime prices dates =
     map (\<lambda>(index, price).
            \<lparr>openPrice = price,
             high = js_mul price (Finite 1.01),
             low = js_mul price (Finite 0.99),
             close = price,
             volume = Finite 1000000,
             time =
               (case dates of
                  None \<Rightarrow> defaultTime (length prices) index
                | Some ds \<Rightarrow>
                   (case js_nth ds (int index) of
                      None \<Rightarrow> defaultTime (length prices) index
                    | Some d \<Rightarrow> if d = [] then defaultTime (length prices) index else d))\<rparr>)
         (enumerate 0 prices)"

definition validateOHLCData :: "OHLCData list \<Rightarrow> bool" where
  "validateOHLCData ohlcData =
     list_all (\<lambda>candle.
        js_ge (high candle) (low candle) \<and>
        js_ge (high candle) (openPrice candle) \<and>
        js_ge (high candle) (close candle) \<and>
        js_le (low candle) (openPrice candle) \<and>
        js_le (low candle) (close candle) \<and>
        js_ge (volume candle) (Finite 0)) ohlcData"

section \<open>The timeframe orchestrator\<close>

text \<open>
  \<^verbatim>\<open>calculateSupertrendForTimeframes\<close> of the market-data route.  The keys of its result
  object are the six timeframe labels.
\<close>

datatype timeframe = TF_45M | TF_2H | TF_4H | TF_1D | TF_3D | TF_1W

definition configs :: "timeframe \<Rightarrow> SupertrendConfig" where
  "configs timeframe =
     (case timeframe of
        TF_45M \<Rightarrow> \<lparr>atrPeriod = 7, factor = Finite 2.0\<rparr>
      | TF_2H \<Rightarrow> \<lparr>atrPeriod = 8, factor = Finite 2.5\<rparr>
      | TF_4H \<Rightarrow> \<lparr>atrPeriod = 10, factor = Finite 2.8\<rparr>
      | TF_1D \<Rightarrow> \<lparr>atrPeriod = 12, factor = Finite 3.0\<rparr>
      | TF_3D \<Rightarrow> \<lparr>atrPeriod = 14, factor = Finite 3.5\<rparr>
      | TF_1W \<Rightarrow> \<lparr>atrPeriod = 15, factor = Finite 4.0\<rparr>)"

text \<open>The \<^verbatim>\<open>switch\<close> that chooses how many of the latest bars a timeframe uses.\<close>

definition dataLengthOf :: "timeframe \<Rightarrow> nat \<Rightarrow> nat" where
  "dataLengthOf timeframe n =
     (case timeframe of
        TF_45M \<Rightarrow> min 20 n
      | TF_2H \<Rightarrow> min 25 n
      | TF_4H \<Rightarrow> min 30 n
      | TF_1D \<Rightarrow> min 40 n
      | TF_3D \<Rightarrow> min 50 n
      | TF_1W \<Rightarrow> n)"

text \<open>\<^verbatim>\<open>xs.slice(-n)\<close>: the last \<open>n\<close> elements, and the whole array when \<open>n\<close> is 0.\<close>

definition js_slice_last :: "'a list \<Rightarrow> nat \<Rightarrow> 'a list" where
  "js_slice_last xs n = (if n = 0 then xs else drop (length xs - n) xs)"

text \<open>
  One pass of the \<^verbatim>\<open>forEach\<close> over the keys: the entry of the timeframe is assigned
  when the slice is long enough, and left as it was otherwise.
\<close>

definition timeframeStep ::
  "OHLCData list \<Rightarrow> (timeframe \<Rightarrow> error + SupertrendResult option) \<Rightarrow> timeframe
     \<Rightarrow> (timeframe \<Rightarrow> error + SupertrendResult option)" where
  "timeframeStep ohlcData result timeframe =
     (let config = configs timeframe;
          dataLength = dataLengthOf timeframe (length ohlcData);
          timeframeData = js_slice_last ohlcData dataLength
      in if int (length timeframeData) \<ge> atrPeriod config + 1
         then result(timeframe := getLatestSupertrendSignal timeframeData (Some config))
         else result)"

definition calculateSupertrendForTimeframes ::
  "OHLCData list \<Rightarrow> (timeframe \<Rightarrow> error + SupertrendResult option)" where
  "calculateSupertrendForTimeframes ohlcData =
     (let result = (\<lambda>timeframe. Inr None)
      in if length ohlcData < 15 then result
         else foldl (timeframeStep ohlcData) result
                [TF_45M, TF_2H, TF_4H, TF_1D, TF_3D, TF_1W])"

section \<open>Notions used to state the properties\<close>

text \<open>The input bar that the output element \<open>k\<close> belongs to, and the middle of a bar.\<close>

abbreviation barOf :: "OHLCData list \<Rightarrow> SupertrendConfig \<Rightarrow> nat \<Rightarrow> OHLCData" where
  "barOf ohlcData config k \<equiv> ohlcData ! (nat (atrPeriod config - 1) + k)"

abbreviation hl2 :: "OHLCData \<Rightarrow> number" where
  "hl2 bar \<equiv> js_div (js_add (high bar) (low bar)) (Finite 2)"


definition js_sum :: "number list \<Rightarrow> number" where
  "js_sum xs = foldl js_add (Finite 0) xs"

text \<open>The OHLC ordering invariant of a bar, as the specification states it.\<close>

definition validBar :: "OHLCData \<Rightarrow> bool" where
  "validBar bar =
     (js_le (low bar) (openPrice bar) \<and> js_le (openPrice bar) (high bar) \<and>
      js_le (low bar) (close bar) \<and> js_le (close bar) (high bar) \<and>
      js_le (Finite 0) (volume bar))"

text \<open>Whether an error is the insufficient-data error of either calculation.\<close>

definition isInsufficientData :: "error \<Rightarrow> bool" where
  "isInsufficientData e = (case e of InsufficientData c n k \<Rightarrow> True | _ \<Rightarrow> False)"


section \<open>Worked examples\<close>

text \<open>
  Five valid bars, the same with a sixth, and the results of the Supertrend over them
  with a period of 2 and a factor of 0.1.
\<close>

definition exampleBars :: "OHLCData list" where
  "exampleBars =
     [\<lparr>openPrice = Finite 6, high = Finite 7, low = Finite 4, close = Finite 4, volume = Finite 100,
        time = ''2024-01-01''\<rparr>,
      \<lparr>openPrice = Finite 0, high = Finite 1, low = Finite 0, close = Finite 0, volume = Finite 100,
        time = ''2024-01-02''\<rparr>,
      \<lparr>openPrice = Finite 9, high = Finite 13, low = Finite 9, close = Finite 10, volume = Finite 100,
        time = ''2024-01-03''\<rparr>,
      \<lparr>openPrice = Finite 10, high = Finite 10, low = Finite 10, close = Finite 10, volume = Finite 100,
        time = ''2024-01-04''\<rparr>,
      \<lparr>openPrice = Finite 10, high = Finite 12, low = Finite 10, close = Finite 12, volume = Finite 100,
        time = ''2024-01-05''\<rparr>]"


definition exampleConfig :: SupertrendConfig where
  "exampleConfig = \<lparr>atrPeriod = 2, factor = Finite (1 / 10)\<rparr>"

definition exampleResults :: "SupertrendResult list" where
  "exampleResults =
     [\<lparr>value = Finite (17 / 20), direction = Down, signal = Hold, atr = Finite (7 / 2),
        basicUpperBand = Finite (17 / 20), basicLowerBand = Finite (3 / 20)\<rparr>,
      \<lparr>value = Finite (407 / 40), direction = Up, signal = Buy, atr = Finite (33 / 4),
        basicUpperBand = Finite (17 / 20), basicLowerBand = Finite (407 / 40)\<rparr>,
      \<lparr>value = Finite (767 / 80), direction = Up, signal = Hold, atr = Finite (33 / 8),
        basicUpperBand = Finite (833 / 80), basicLowerBand = Finite (767 / 80)\<rparr>,
      \<lparr>value = Finite (1711 / 160), direction = Up, signal = Hold, atr = Finite (49 / 16),
        basicUpperBand = Finite (833 / 80), basicLowerBand = Finite (1711 / 160)\<rparr>]"


text \<open>
  Five finite, valid bars of which the second has the high \<open>2 ^ 1023\<close> and the low
  \<open>- 2 ^ 1023\<close>, so that its range overflows; a period of 1 and a factor of 0.5.
\<close>

definition overflowBars :: "OHLCData list" where
  "overflowBars =
     [\<lparr>openPrice = Finite 5, high = Finite 6, low = Finite 4, close = Finite 5, volume = Finite 100,
        time = ''2024-01-01''\<rparr>,
      \<lparr>openPrice = Finite 100, high = Finite 89884656743115795386465259539451236680898848947115328636715040578866337902750481566354238661203768010560056939935696678829394884407208311246423715319737062188883946712432742638151109800623047059726541476042502884419075341171231440736956555270413618581675255342293149119973622969239858152417678164812112068608, low = Finite (- 89884656743115795386465259539451236680898848947115328636715040578866337902750481566354238661203768010560056939935696678829394884407208311246423715319737062188883946712432742638151109800623047059726541476042502884419075341171231440736956555270413618581675255342293149119973622969239858152417678164812112068608), close = Finite 100, volume = Finite 100,
        time = ''2024-01-02''\<rparr>,
      \<lparr>openPrice = Finite (11 / 2), high = Finite 6, low = Finite 5, close = Finite (11 / 2), volume = Finite 100,
        time = ''2024-01-03''\<rparr>,
      \<lparr>openPrice = Finite 3, high = Finite 3, low = Finite 3, close = Finite 3, volume = Finite 100,
        time = ''2024-01-04''\<rparr>,
      \<lparr>openPrice = Finite 5, high = Finite 6, low = Finite 4, close = Finite (11 / 2), volume = Finite 100,
        time = ''2024-01-05''\<rparr>]"

definition overflowConfig :: SupertrendConfig where
  "overflowConfig = \<lparr>atrPeriod = 1, factor = Finite (1 / 2)\<rparr>"

definition overflowResults :: "SupertrendResult list" where
  "overflowResults =
     [\<lparr>value = Finite 4, direction = Up, signal = Hold, atr = Finite 2,
        basicUpperBand = Finite 6, basicLowerBand = Finite 4\<rparr>,
      \<lparr>value = Finite 4, direction = Up, signal = Hold, atr = PosInf,
        basicUpperBand = Finite 6, basicLowerBand = Finite 4\<rparr>,
      \<lparr>value = Finite 4, direction = Up, signal = Hold, atr = NaN,
        basicUpperBand = NaN, basicLowerBand = Finite 4\<rparr>,
      \<lparr>value = NaN, direction = Down, signal = Sell, atr = NaN,
        basicUpperBand = NaN, basicLowerBand = Finite 4\<rparr>,
      \<lparr>value = NaN, direction = Up, signal = Hold, atr = NaN,
        basicUpperBand = NaN, basicLowerBand = NaN\<rparr>]"

text \<open>
  Two bars of which the first has its high below its low; ten equal bars, and fifteen.
\<close>

definition badBars :: "OHLCData list" where
  "badBars =
     [\<lparr>openPrice = Finite 5, high = Finite 1, low = Finite 9, close = Finite 5, volume = Finite 100,
        time = ''2024-01-01''\<rparr>,
      \<lparr>openPrice = Finite 5, high = Finite 6, low = Finite 4, close = Finite 5, volume = Finite 100,
        time = ''2024-01-02''\<rparr>]"


definition flatBars :: "OHLCData list" where
  "flatBars =
     replicate 15 \<lparr>openPrice = Finite 5, high = Finite 6, low = Finite 4, close = Finite 5,
                    volume = Finite 100, time = ''2024-01-01''\<rparr>"

text \<open>
  Five valid bars that fall for three bars and then rise, and the results of the
  Supertrend over them with a period of 1 and a factor of 0.5: a run of three bars with
  direction down, then the bar of a buy flip whose close lies above its own lower band.
\<close>

definition swingBars :: "OHLCData list" where
  "swingBars =
     [\<lparr>openPrice = Finite 6, high = Finite 7, low = Finite 4, close = Finite 4, volume = Finite 100,
        time = ''2024-01-01''\<rparr>,
      \<lparr>openPrice = Finite 4, high = Finite 4, low = Finite 2, close = Finite 3, volume = Finite 100,
        time = ''2024-01-02''\<rparr>,
      \<lparr>openPrice = Finite 3, high = Finite 3, low = Finite 1, close = Finite 2, volume = Finite 100,
        time = ''2024-01-03''\<rparr>,
      \<lparr>openPrice = Finite 2, high = Finite 9, low = Finite 2, close = Finite 8, volume = Finite 100,
        time = ''2024-01-04''\<rparr>,
      \<lparr>openPrice = Finite 8, high = Finite 9, low = Finite 7, close = Finite 8, volume = Finite 100,
        time = ''2024-01-05''\<rparr>]"


section \<open>Facts about numbers\<close>

lemma js_norm_not_NaN: "js_norm a = NaN \<longleftrightarrow> a = NaN"
  by (cases a) (simp_all add: js_num_def)

lemma js_place_None: "js_place a = None \<longleftrightarrow> a = NaN"
  by (cases a) (simp_all add: js_place_def js_num_def)

lemma js_lt_imp_le: "js_lt a b \<Longrightarrow> js_le a b"
  by (auto simp: js_lt_def js_le_def split: option.splits prod.splits)

lemma js_lt_iff_not_le: "a \<noteq> NaN \<Longrightarrow> b \<noteq> NaN \<Longrightarrow> js_lt a b \<longleftrightarrow> \<not> js_le b a"
proof -
  assume "a \<noteq> NaN" "b \<noteq> NaN"
  then obtain i x j y where "js_place a = Some (i, x)" "js_place b = Some (j, y)"
    using js_place_None[of a] js_place_None[of b] by (cases "js_place a"; cases "js_place b") auto
  then show ?thesis by (auto simp: js_lt_def js_le_def)
qed


lemma js_le_not_NaN: "js_le a b \<Longrightarrow> a \<noteq> NaN \<and> b \<noteq> NaN"
  using js_place_None[of a] js_place_None[of b]
  by (auto simp: js_le_def split: option.splits)

lemma js_lt_not_NaN: "js_lt a b \<Longrightarrow> a \<noteq> NaN \<and> b \<noteq> NaN"
  using js_lt_imp_le js_le_not_NaN by blast

lemma js_le_trans: "js_le a b \<Longrightarrow> js_le b c \<Longrightarrow> js_le a c"
  by (auto simp: js_le_def split: option.splits prod.splits)

section \<open>Array reads and the loops\<close>

text \<open>
  The equations of the two loops are unfolded one step at a time, by the step lemmas
  below, and not by the simplifier.
\<close>

declare atrLoop.simps [simp del]
declare supertrendLoop.simps [simp del]

lemma js_nth_in: "0 \<le> i \<Longrightarrow> i < int (length xs) \<Longrightarrow> js_nth xs i = Some (xs ! nat i)"
  by (simp add: js_nth_def)

lemma js_nth_out: "i < 0 \<or> int (length xs) \<le> i \<Longrightarrow> js_nth xs i = None"
  by (auto simp add: js_nth_def)

lemma js_nth_nat: "k < length xs \<Longrightarrow> js_nth xs (int k) = Some (xs ! k)"
  by (simp add: js_nth_def)

lemma js_last_snoc: "js_last (xs @ [x]) = Some x"
  by (simp add: js_last_def js_nth_def)

lemma js_last_Some: "xs \<noteq> [] \<Longrightarrow> js_last xs = Some (last xs)"
  by (cases xs rule: rev_cases) (simp_all add: js_last_snoc)

lemma js_last_take: "0 < k \<Longrightarrow> k \<le> length xs \<Longrightarrow> js_last (take k xs) = Some (xs ! (k - 1))"
  by (simp add: js_last_def js_nth_def min_def nat_diff_distrib')

text \<open>One Wilder step, from the previous value and the true range of the bar.\<close>

lemma atrLoop_done: "\<not> i < int (length trs) \<Longrightarrow> atrLoop trs period i atrs = atrs"
  by (subst atrLoop.simps) simp

lemma atrLoop_step:
  assumes "i < int (length trs)" "0 \<le> i" "atrs \<noteq> []"
  shows "atrLoop trs period i atrs =
         atrLoop trs period (i + 1)
           (atrs @ [js_div (js_add (js_mul (last atrs) (js_int (period - 1))) (trs ! nat i))
                      (js_int period)])"
  using assms
  by (subst atrLoop.simps) (simp add: js_last_Some js_nth_in js_operand_def Let_def)

lemma atrLoop_char:
  assumes "0 \<le> i" "atrs \<noteq> []"
  shows "length (atrLoop trs period i atrs) = length atrs + nat (int (length trs) - i)
           \<and> take (length atrs) (atrLoop trs period i atrs) = atrs
           \<and> (\<forall>m. m < nat (int (length trs) - i) \<longrightarrow>
                 atrLoop trs period i atrs ! (length atrs + m) =
                   js_div (js_add (js_mul (atrLoop trs period i atrs ! (length atrs + m - 1))
                                     (js_int (period - 1)))
                             (trs ! (nat i + m)))
                     (js_int period))"
  using assms
proof (induction "nat (int (length trs) - i)" arbitrary: i atrs)
  case 0
  then have "\<not> i < int (length trs)" by simp
  with 0 show ?case by (simp add: atrLoop_done)
next
  case (Suc n)
  then have lt: "i < int (length trs)" by linarith
  define x where "x = js_div (js_add (js_mul (last atrs) (js_int (period - 1))) (trs ! nat i))
                        (js_int period)"
  define rs where "rs = atrLoop trs period (i + 1) (atrs @ [x])"
  have step: "atrLoop trs period i atrs = rs"
    unfolding x_def rs_def using lt Suc.prems by (rule_tac atrLoop_step) auto
  have n: "n = nat (int (length trs) - (i + 1))" using Suc.hyps(2) by linarith
  have pre: "0 \<le> i + 1" "atrs @ [x] \<noteq> []" using Suc.prems by simp_all
  note ih = Suc.hyps(1)[OF n pre, folded rs_def]
  have len': "length rs = length (atrs @ [x]) + nat (int (length trs) - (i + 1))"
    using ih by blast
  have tk': "take (length (atrs @ [x])) rs = atrs @ [x]" using ih by blast
  have rec': "\<forall>m. m < nat (int (length trs) - (i + 1)) \<longrightarrow>
         rs ! (length (atrs @ [x]) + m) =
           js_div (js_add (js_mul (rs ! (length (atrs @ [x]) + m - 1)) (js_int (period - 1)))
                     (trs ! (nat (i + 1) + m)))
             (js_int period)"
    using ih by blast
  have len: "length rs = length atrs + nat (int (length trs) - i)"
    using len' lt by simp
  have tk: "take (length atrs) rs = atrs"
  proof -
    have "take (length atrs) (take (length (atrs @ [x])) rs) = take (length atrs) (atrs @ [x])"
      by (simp only: tk')
    then show ?thesis by (simp add: min_def)
  qed
  have at: "rs ! length atrs = x"
  proof -
    have "rs ! length atrs = take (length (atrs @ [x])) rs ! length atrs" by simp
    also have "\<dots> = (atrs @ [x]) ! length atrs" by (simp only: tk')
    finally show ?thesis by simp
  qed
  have prev: "rs ! (length atrs - 1) = last atrs"
  proof -
    have "length atrs - 1 < length atrs" using Suc.prems by (cases atrs) auto
    then have "rs ! (length atrs - 1) = take (length atrs) rs ! (length atrs - 1)" by simp
    also have "\<dots> = atrs ! (length atrs - 1)" by (simp only: tk)
    finally show ?thesis using Suc.prems by (simp add: last_conv_nth)
  qed
  have rec: "rs ! (length atrs + m) =
              js_div (js_add (js_mul (rs ! (length atrs + m - 1)) (js_int (period - 1)))
                        (trs ! (nat i + m)))
                (js_int period)"
    if m: "m < nat (int (length trs) - i)" for m
  proof (cases m)
    case 0
    then show ?thesis using at prev by (simp add: x_def)
  next
    case (Suc m')
    then have m': "m' < nat (int (length trs) - (i + 1))" using m by linarith
    have e: "rs ! (length (atrs @ [x]) + m') =
           js_div (js_add (js_mul (rs ! (length (atrs @ [x]) + m' - 1)) (js_int (period - 1)))
                     (trs ! (nat (i + 1) + m')))
             (js_int period)"
      using rec'[rule_format, OF m'] .
    have idx: "nat (i + 1) + m' = nat i + Suc m'" using \<open>0 \<le> i\<close> by (simp add: nat_add_distrib)
    show ?thesis unfolding Suc using e unfolding idx by simp
  qed
  show ?case unfolding step using len tk rec by blast
qed

lemma seedSum_js_sum:
  assumes "0 \<le> period" "period \<le> int (length trs)"
  shows "seedSum trs period = js_sum (take (nat period) trs)"
proof -
  have "n \<le> length trs \<Longrightarrow>
          foldl (\<lambda>sum i. js_add sum (trs ! i)) a [0..<n] = foldl js_add a (take n trs)" for n a
  proof (induction n)
    case 0
    then show ?case by simp
  next
    case (Suc n)
    then show ?case by (simp add: take_Suc_conv_app_nth)
  qed
  then show ?thesis using assms by (simp add: seedSum_def js_sum_def)
qed

lemma length_trueRangesOf: "length (trueRangesOf ohlc) = length ohlc"
  by (simp add: trueRangesOf_def)



lemma calculateATR_returns:
  "period \<le> int (length ohlc) \<Longrightarrow> \<exists>atrs. calculateATR ohlc period = Inr atrs"
  by (simp add: calculateATR_def Let_def)

lemma calculateATR_char:
  assumes p: "1 \<le> period" and len: "period \<le> int (length ohlc)"
  shows "\<exists>atrs. calculateATR ohlc period = Inr atrs
           \<and> int (length atrs) = int (length ohlc) - period + 1
           \<and> atrs ! 0 = js_div (js_sum (take (nat period) (trueRangesOf ohlc))) (js_int period)
           \<and> (\<forall>k. 1 \<le> k \<and> k < length atrs \<longrightarrow>
                 atrs ! k = js_div (js_add (js_mul (atrs ! (k - 1)) (js_int (period - 1)))
                                      (trueRangesOf ohlc ! (nat period - 1 + k)))
                              (js_int period))"
proof -
  define trs where "trs = trueRangesOf ohlc"
  define seed where "seed = js_div (js_sum (take (nat period) trs)) (js_int period)"
  define rs where "rs = atrLoop trs period period [seed]"
  have ltrs: "length trs = length ohlc" by (simp add: trs_def length_trueRangesOf)
  have ss: "seedSum trs period = js_sum (take (nat period) trs)"
    using p len ltrs by (intro seedSum_js_sum) auto
  have nolt: "\<not> int (length ohlc) < period" using len by simp
  have calc: "calculateATR ohlc period = Inr rs"
    unfolding calculateATR_def Let_def if_not_P[OF nolt] trs_def[symmetric] ss
      seed_def[symmetric] rs_def ..
  have pos: "0 \<le> period" "[seed] \<noteq> []" using p by simp_all
  note ch = atrLoop_char[OF pos, of trs period, folded rs_def]
  have l0: "length rs = length [seed] + nat (int (length trs) - period)" using ch by blast
  have tk: "take (length [seed]) rs = [seed]" using ch by blast
  have rec: "\<forall>m. m < nat (int (length trs) - period) \<longrightarrow>
         rs ! (length [seed] + m) =
           js_div (js_add (js_mul (rs ! (length [seed] + m - 1)) (js_int (period - 1)))
                     (trs ! (nat period + m)))
             (js_int period)"
    using ch by blast
  have l: "int (length rs) = int (length ohlc) - period + 1"
    using l0 ltrs len by simp
  have z: "rs ! 0 = seed"
  proof -
    have "rs ! 0 = take (length [seed]) rs ! 0" by simp
    also have "\<dots> = seed" by (simp only: tk) simp
    finally show ?thesis .
  qed
  have r: "rs ! k = js_div (js_add (js_mul (rs ! (k - 1)) (js_int (period - 1)))
                             (trs ! (nat period - 1 + k)))
                      (js_int period)"
    if k: "1 \<le> k \<and> k < length rs" for k
  proof -
    obtain m where m: "k = Suc m" using k by (cases k) auto
    have mlt: "m < nat (int (length trs) - period)" using k m l0 by simp
    have e: "rs ! Suc m = js_div (js_add (js_mul (rs ! m) (js_int (period - 1)))
                                    (trs ! (nat period + m)))
                            (js_int period)"
      using rec[rule_format, OF mlt] by simp
    have idx: "nat period - 1 + Suc m = nat period + m" using p by simp
    show ?thesis unfolding m idx using e by simp
  qed
  have z': "rs ! 0 = js_div (js_sum (take (nat period) (trueRangesOf ohlc))) (js_int period)"
    using z by (simp add: seed_def trs_def)
  have r': "\<forall>k. 1 \<le> k \<and> k < length rs \<longrightarrow>
                 rs ! k = js_div (js_add (js_mul (rs ! (k - 1)) (js_int (period - 1)))
                                    (trueRangesOf ohlc ! (nat period - 1 + k)))
                            (js_int period)"
    using r unfolding trs_def by blast
  show ?thesis using calc l z' r' by blast
qed

lemma supertrendLoop_done:
  "\<not> i < int (length ohlc) \<Longrightarrow> supertrendLoop ohlc atrs p f i acc = Inr acc"
  by (subst supertrendLoop.simps) simp

lemma supertrendLoop_step:
  "i < int (length ohlc) \<Longrightarrow>
     supertrendLoop ohlc atrs p f i acc =
       (case supertrendBar ohlc atrs p f i acc of
          Inl e \<Rightarrow> Inl e
        | Inr r \<Rightarrow> supertrendLoop ohlc atrs p f (i + 1) (acc @ [r]))"
  by (subst supertrendLoop.simps) simp

lemma supertrendLoop_char:
  assumes "supertrendLoop ohlc atrs p f i acc = Inr rs"
  shows "length rs = length acc + nat (int (length ohlc) - i)
         \<and> take (length acc) rs = acc
         \<and> (\<forall>m. m < nat (int (length ohlc) - i) \<longrightarrow>
               supertrendBar ohlc atrs p f (i + int m) (take (length acc + m) rs)
                 = Inr (rs ! (length acc + m)))"
  using assms
proof (induction "nat (int (length ohlc) - i)" arbitrary: i acc)
  case 0
  then have "\<not> i < int (length ohlc)" by simp
  with 0 show ?case by (simp add: supertrendLoop_done)
next
  case (Suc n)
  then have lt: "i < int (length ohlc)" by linarith
  from Suc.prems lt obtain r where
    bar: "supertrendBar ohlc atrs p f i acc = Inr r" and
    rec: "supertrendLoop ohlc atrs p f (i + 1) (acc @ [r]) = Inr rs"
    by (auto simp: supertrendLoop_step split: sum.splits)
  have n: "n = nat (int (length ohlc) - (i + 1))" using Suc.hyps(2) by linarith
  note ih = Suc.hyps(1)[OF n rec]
  have len': "length rs = length (acc @ [r]) + nat (int (length ohlc) - (i + 1))"
    using ih by blast
  have tk': "take (length (acc @ [r])) rs = acc @ [r]" using ih by blast
  have bars': "\<forall>m. m < nat (int (length ohlc) - (i + 1)) \<longrightarrow>
               supertrendBar ohlc atrs p f (i + 1 + int m) (take (length (acc @ [r]) + m) rs)
                 = Inr (rs ! (length (acc @ [r]) + m))"
    using ih by blast
  have len: "length rs = length acc + nat (int (length ohlc) - i)"
    using len' lt by simp
  have tk: "take (length acc) rs = acc"
  proof -
    have "take (length acc) (take (length (acc @ [r])) rs) = take (length acc) (acc @ [r])"
      by (simp only: tk')
    then show ?thesis by (simp add: min_def)
  qed
  have at: "rs ! length acc = r"
  proof -
    have "rs ! length acc = take (length (acc @ [r])) rs ! length acc" by simp
    also have "\<dots> = (acc @ [r]) ! length acc" by (simp only: tk')
    finally show ?thesis by simp
  qed
  have step: "supertrendBar ohlc atrs p f (i + int m) (take (length acc + m) rs)
                 = Inr (rs ! (length acc + m))"
    if m: "m < nat (int (length ohlc) - i)" for m
  proof (cases m)
    case 0
    then show ?thesis using bar tk at by simp
  next
    case (Suc m')
    then have "m' < nat (int (length ohlc) - (i + 1))" using m by linarith
    from bars'[rule_format, OF this] show ?thesis using Suc by (simp add: add.commute add.left_commute)
  qed
  show ?case using len tk step by blast
qed

lemma supertrendBar_returns:
  assumes "1 \<le> p" "i < int (length ohlc)" "p - 1 \<le> i" "i - (p - 1) < int (length atrs)"
    "i > p - 1 \<longrightarrow> acc \<noteq> []"
  shows "\<exists>r. supertrendBar ohlc atrs p f i acc = Inr r"
proof -
  have a: "js_nth ohlc i = Some (ohlc ! nat i)" using assms by (intro js_nth_in) auto
  have b: "js_nth atrs (i - (p - 1)) = Some (atrs ! nat (i - (p - 1)))"
    using assms by (intro js_nth_in) auto
  show ?thesis
  proof (cases "i > p - 1")
    case True
    then have c: "js_last acc = Some (last acc)" using assms by (simp add: js_last_Some)
    have d: "js_nth ohlc (i - 1) = Some (ohlc ! nat (i - 1))"
      using assms True by (intro js_nth_in) auto
    show ?thesis unfolding supertrendBar_def finalBands_def a b c d using True
      by (simp add: Let_def split: prod.splits)
  next
    case False
    then have "i = p - 1" using assms by simp
    then show ?thesis unfolding supertrendBar_def finalBands_def a b by (simp add: Let_def)
  qed
qed

lemma supertrendLoop_returns:
  assumes "1 \<le> p" "p - 1 \<le> i" "int (length ohlc) - p + 1 \<le> int (length atrs)"
    "i > p - 1 \<longrightarrow> acc \<noteq> []"
  shows "\<exists>rs. supertrendLoop ohlc atrs p f i acc = Inr rs"
  using assms
proof (induction "nat (int (length ohlc) - i)" arbitrary: i acc)
  case 0
  then have "\<not> i < int (length ohlc)" by simp
  then show ?case by (simp add: supertrendLoop_done)
next
  case (Suc n)
  then have lt: "i < int (length ohlc)" by linarith
  have "\<exists>r. supertrendBar ohlc atrs p f i acc = Inr r"
    using Suc.prems lt by (intro supertrendBar_returns) auto
  then obtain r where bar: "supertrendBar ohlc atrs p f i acc = Inr r" by blast
  have n: "n = nat (int (length ohlc) - (i + 1))" using Suc.hyps(2) by linarith
  have "\<exists>rs. supertrendLoop ohlc atrs p f (i + 1) (acc @ [r]) = Inr rs"
    using Suc.prems by (intro Suc.hyps(1)[OF n]) auto
  then show ?case using lt bar by (simp add: supertrendLoop_step)
qed

lemma supertrendLoop_negative:
  assumes "i < 0"
  shows "supertrendLoop ohlc atrs p f i acc = Inl TypeError"
proof -
  have "i < int (length ohlc)" using assms by simp
  moreover have "supertrendBar ohlc atrs p f i acc = Inl TypeError"
    using assms by (simp add: supertrendBar_def js_nth_def)
  ultimately show ?thesis by (simp add: supertrendLoop_step)
qed

lemma calculateSupertrend_short:
  "int (length ohlc) < atrPeriod cfg + 1 \<Longrightarrow>
     calculateSupertrend ohlc cfg =
       Inl (InsufficientData ''Supertrend'' (atrPeriod cfg + 1) (length ohlc))"
  by (simp add: calculateSupertrend_def)

lemma calculateSupertrend_nonpos:
  assumes "atrPeriod cfg \<le> 0" "atrPeriod cfg + 1 \<le> int (length ohlc)"
  shows "calculateSupertrend ohlc cfg = Inl TypeError"
proof -
  have "atrPeriod cfg \<le> int (length ohlc)" using assms by simp
  from calculateATR_returns[OF this]
  obtain atrs where "calculateATR ohlc (atrPeriod cfg) = Inr atrs" by blast
  then show ?thesis
    using assms by (simp add: calculateSupertrend_def supertrendLoop_negative)
qed

lemma calculateSupertrend_char:
  assumes "calculateSupertrend ohlc cfg = Inr rs"
  shows "1 \<le> atrPeriod cfg \<and> atrPeriod cfg + 1 \<le> int (length ohlc)
         \<and> (\<exists>atrs. calculateATR ohlc (atrPeriod cfg) = Inr atrs
               \<and> int (length atrs) = int (length ohlc) - atrPeriod cfg + 1
               \<and> length rs = length atrs
               \<and> (\<forall>k. k < length rs \<longrightarrow>
                     supertrendBar ohlc atrs (atrPeriod cfg) (factor cfg)
                        (atrPeriod cfg - 1 + int k) (take k rs) = Inr (rs ! k)))"
proof -
  have len: "atrPeriod cfg + 1 \<le> int (length ohlc)"
    using assms by (cases "int (length ohlc) < atrPeriod cfg + 1")
                   (simp_all add: calculateSupertrend_short)
  have p: "1 \<le> atrPeriod cfg"
    using assms len by (cases "atrPeriod cfg \<le> 0") (simp_all add: calculateSupertrend_nonpos)
  have "\<exists>atrs. calculateATR ohlc (atrPeriod cfg) = Inr atrs
           \<and> int (length atrs) = int (length ohlc) - atrPeriod cfg + 1"
    using calculateATR_char[of "atrPeriod cfg" ohlc] p len by auto
  then obtain atrs where atrs: "calculateATR ohlc (atrPeriod cfg) = Inr atrs"
    "int (length atrs) = int (length ohlc) - atrPeriod cfg + 1" by blast
  have loop: "supertrendLoop ohlc atrs (atrPeriod cfg) (factor cfg) (atrPeriod cfg - 1) [] = Inr rs"
    using assms len atrs(1) by (simp add: calculateSupertrend_def)
  note ch = supertrendLoop_char[OF loop]
  have l: "length rs = length atrs" using ch atrs(2) len by simp
  have b: "\<forall>k. k < length rs \<longrightarrow>
             supertrendBar ohlc atrs (atrPeriod cfg) (factor cfg)
                (atrPeriod cfg - 1 + int k) (take k rs) = Inr (rs ! k)"
    using ch by simp
  show ?thesis using p len atrs l b by blast
qed

lemma calculateSupertrend_returns:
  assumes "1 \<le> atrPeriod cfg" "atrPeriod cfg + 1 \<le> int (length ohlc)"
  shows "\<exists>rs. calculateSupertrend ohlc cfg = Inr rs"
proof -
  have "\<exists>atrs. calculateATR ohlc (atrPeriod cfg) = Inr atrs
           \<and> int (length atrs) = int (length ohlc) - atrPeriod cfg + 1"
    using calculateATR_char[of "atrPeriod cfg" ohlc] assms by auto
  then obtain atrs where atrs: "calculateATR ohlc (atrPeriod cfg) = Inr atrs"
    "int (length atrs) = int (length ohlc) - atrPeriod cfg + 1" by blast
  have "\<exists>rs. supertrendLoop ohlc atrs (atrPeriod cfg) (factor cfg) (atrPeriod cfg - 1) [] = Inr rs"
    using assms atrs(2) by (intro supertrendLoop_returns) auto
  then show ?thesis using assms atrs(1) by (simp add: calculateSupertrend_def)
qed

lemma supertrendBar_first:
  assumes "js_nth ohlc i = Some cur" "js_nth atrs (i - (p - 1)) = Some a" "i = p - 1"
  shows "supertrendBar ohlc atrs p f i acc =
           Inr \<lparr>value = (if js_le (close cur) (js_sub (hl2 cur) (js_mul f a))
                         then js_add (hl2 cur) (js_mul f a) else js_sub (hl2 cur) (js_mul f a)),
                direction = (if js_le (close cur) (js_sub (hl2 cur) (js_mul f a))
                             then Down else Up),
                signal = Hold, atr = a,
                basicUpperBand = js_add (hl2 cur) (js_mul f a),
                basicLowerBand = js_sub (hl2 cur) (js_mul f a)\<rparr>"
  unfolding supertrendBar_def finalBands_def using assms by (simp add: Let_def)

lemma supertrendBar_next:
  assumes "js_nth ohlc i = Some cur" "js_nth atrs (i - (p - 1)) = Some a" "i > p - 1"
    "js_last acc = Some prev" "js_nth ohlc (i - 1) = Some pb"
    "fu = (if js_lt (js_add (hl2 cur) (js_mul f a)) (basicUpperBand prev)
              \<or> js_gt (close pb) (basicUpperBand prev)
           then js_add (hl2 cur) (js_mul f a) else basicUpperBand prev)"
    "fl = (if js_gt (js_sub (hl2 cur) (js_mul f a)) (basicLowerBand prev)
              \<or> js_lt (close pb) (basicLowerBand prev)
           then js_sub (hl2 cur) (js_mul f a) else basicLowerBand prev)"
    "out = branchOutcome (directionBranch (direction prev) (close cur) fl fu)
             (close cur) (hl2 cur) fl fu"
  shows "supertrendBar ohlc atrs p f i acc =
           Inr \<lparr>value = fst (snd out), direction = fst out, signal = snd (snd out), atr = a,
                basicUpperBand = fu, basicLowerBand = fl\<rparr>"
proof -
  have ne: "i \<noteq> p - 1" using assms(3) by simp
  have fb: "finalBands ohlc p i acc (js_add (hl2 cur) (js_mul f a))
              (js_sub (hl2 cur) (js_mul f a)) = Inr (fu, fl)"
    unfolding finalBands_def assms(4,5) option.case Let_def if_P[OF assms(3)] assms(6,7) ..
  show ?thesis
    unfolding supertrendBar_def assms(1,2,4) option.case Let_def fb sum.case prod.case
      if_not_P[OF ne] assms(8)
    by (simp add: case_prod_beta)
qed

lemma calculateSupertrend_first:
  assumes "calculateSupertrend ohlc cfg = Inr rs" "calculateATR ohlc (atrPeriod cfg) = Inr atrs"
  shows "rs ! 0 =
           \<lparr>value = (if js_le (close (barOf ohlc cfg 0))
                           (js_sub (hl2 (barOf ohlc cfg 0)) (js_mul (factor cfg) (atrs ! 0)))
                      then js_add (hl2 (barOf ohlc cfg 0)) (js_mul (factor cfg) (atrs ! 0))
                      else js_sub (hl2 (barOf ohlc cfg 0)) (js_mul (factor cfg) (atrs ! 0))),
            direction = (if js_le (close (barOf ohlc cfg 0))
                               (js_sub (hl2 (barOf ohlc cfg 0)) (js_mul (factor cfg) (atrs ! 0)))
                         then Down else Up),
            signal = Hold, atr = atrs ! 0,
            basicUpperBand = js_add (hl2 (barOf ohlc cfg 0)) (js_mul (factor cfg) (atrs ! 0)),
            basicLowerBand = js_sub (hl2 (barOf ohlc cfg 0)) (js_mul (factor cfg) (atrs ! 0))\<rparr>"
proof -
  note ch = calculateSupertrend_char[OF assms(1)]
  from ch assms(2) have p: "1 \<le> atrPeriod cfg" and len: "atrPeriod cfg + 1 \<le> int (length ohlc)"
    and la: "int (length atrs) = int (length ohlc) - atrPeriod cfg + 1"
    and lr: "length rs = length atrs"
    and bars: "\<forall>k. k < length rs \<longrightarrow>
                     supertrendBar ohlc atrs (atrPeriod cfg) (factor cfg)
                        (atrPeriod cfg - 1 + int k) (take k rs) = Inr (rs ! k)"
    by auto
  have k0: "0 < length rs" using lr la len by linarith
  have b0: "supertrendBar ohlc atrs (atrPeriod cfg) (factor cfg) (atrPeriod cfg - 1) [] = Inr (rs ! 0)"
    using bars[rule_format, OF k0] by simp
  have c: "js_nth ohlc (atrPeriod cfg - 1) = Some (barOf ohlc cfg 0)"
    using p len by (simp add: js_nth_def)
  have a: "js_nth atrs (atrPeriod cfg - 1 - (atrPeriod cfg - 1)) = Some (atrs ! 0)"
    using k0 lr by (simp add: js_nth_def)
  show ?thesis using b0 unfolding supertrendBar_first[OF c a, simplified] by simp
qed

lemma calculateSupertrend_next:
  assumes "calculateSupertrend ohlc cfg = Inr rs" "calculateATR ohlc (atrPeriod cfg) = Inr atrs"
    "0 < k" "k < length rs"
    "fu = (if js_lt (js_add (hl2 (barOf ohlc cfg k)) (js_mul (factor cfg) (atrs ! k)))
                    (basicUpperBand (rs ! (k - 1)))
              \<or> js_gt (close (barOf ohlc cfg (k - 1))) (basicUpperBand (rs ! (k - 1)))
           then js_add (hl2 (barOf ohlc cfg k)) (js_mul (factor cfg) (atrs ! k))
           else basicUpperBand (rs ! (k - 1)))"
    "fl = (if js_gt (js_sub (hl2 (barOf ohlc cfg k)) (js_mul (factor cfg) (atrs ! k)))
                    (basicLowerBand (rs ! (k - 1)))
              \<or> js_lt (close (barOf ohlc cfg (k - 1))) (basicLowerBand (rs ! (k - 1)))
           then js_sub (hl2 (barOf ohlc cfg k)) (js_mul (factor cfg) (atrs ! k))
           else basicLowerBand (rs ! (k - 1)))"
    "out = branchOutcome (directionBranch (direction (rs ! (k - 1))) (close (barOf ohlc cfg k)) fl fu)
             (close (barOf ohlc cfg k)) (hl2 (barOf ohlc cfg k)) fl fu"
  shows "rs ! k = \<lparr>value = fst (snd out), direction = fst out, signal = snd (snd out),
                   atr = atrs ! k, basicUpperBand = fu, basicLowerBand = fl\<rparr>"
proof -
  note ch = calculateSupertrend_char[OF assms(1)]
  from ch assms(2) have p: "1 \<le> atrPeriod cfg" and len: "atrPeriod cfg + 1 \<le> int (length ohlc)"
    and la: "int (length atrs) = int (length ohlc) - atrPeriod cfg + 1"
    and lr: "length rs = length atrs"
    and bars: "\<forall>k. k < length rs \<longrightarrow>
                     supertrendBar ohlc atrs (atrPeriod cfg) (factor cfg)
                        (atrPeriod cfg - 1 + int k) (take k rs) = Inr (rs ! k)"
    by auto
  have bk: "supertrendBar ohlc atrs (atrPeriod cfg) (factor cfg) (atrPeriod cfg - 1 + int k) (take k rs)
              = Inr (rs ! k)"
    using bars[rule_format, OF assms(4)] .
  have c: "js_nth ohlc (atrPeriod cfg - 1 + int k) = Some (barOf ohlc cfg k)"
    using p la lr assms(4) by (simp add: js_nth_def nat_add_distrib)
  have a: "js_nth atrs (atrPeriod cfg - 1 + int k - (atrPeriod cfg - 1)) = Some (atrs ! k)"
    using assms(4) lr by (simp add: js_nth_def)
  have gt: "atrPeriod cfg - 1 + int k > atrPeriod cfg - 1" using assms(3) by simp
  have pr: "js_last (take k rs) = Some (rs ! (k - 1))"
    using assms(3,4) by (simp add: js_last_take)
  have pb: "js_nth ohlc (atrPeriod cfg - 1 + int k - 1) = Some (barOf ohlc cfg (k - 1))"
  proof -
    have i: "nat (atrPeriod cfg - 1 + int k - 1) = nat (atrPeriod cfg - 1) + (k - 1)"
      using p assms(3) by linarith
    have "0 \<le> atrPeriod cfg - 1 + int k - 1" using p assms(3) by linarith
    moreover have "atrPeriod cfg - 1 + int k - 1 < int (length ohlc)"
      using la lr assms(4) by linarith
    ultimately have "js_nth ohlc (atrPeriod cfg - 1 + int k - 1)
                       = Some (ohlc ! nat (atrPeriod cfg - 1 + int k - 1))"
      by (rule js_nth_in)
    then show ?thesis unfolding i .
  qed
  show ?thesis using bk unfolding supertrendBar_next[OF c a gt pr pb assms(5) assms(6) assms(7)]
    by simp
qed

section \<open>What each result holds\<close>

lemma later_bar_outcome:
  assumes "calculateSupertrend ohlc cfg = Inr rs" "0 < k" "k < length rs"
  shows "(direction (rs ! k), value (rs ! k), signal (rs ! k)) =
           branchOutcome
             (directionBranch (direction (rs ! (k - 1))) (close (barOf ohlc cfg k))
                (basicLowerBand (rs ! k)) (basicUpperBand (rs ! k)))
             (close (barOf ohlc cfg k)) (hl2 (barOf ohlc cfg k))
             (basicLowerBand (rs ! k)) (basicUpperBand (rs ! k))"
proof -
  from calculateSupertrend_char[OF assms(1)]
  obtain atrs where atrs: "calculateATR ohlc (atrPeriod cfg) = Inr atrs" by blast
  show ?thesis
    by (simp add: calculateSupertrend_next[OF assms(1) atrs assms(2) assms(3) refl refl refl])
qed


lemma first_bar_fields:
  assumes "calculateSupertrend ohlc cfg = Inr rs" "calculateATR ohlc (atrPeriod cfg) = Inr atrs"
  shows "atr (rs ! 0) = atrs ! 0
       \<and> signal (rs ! 0) = Hold
       \<and> basicUpperBand (rs ! 0) = js_add (hl2 (barOf ohlc cfg 0)) (js_mul (factor cfg) (atrs ! 0))
       \<and> basicLowerBand (rs ! 0) = js_sub (hl2 (barOf ohlc cfg 0)) (js_mul (factor cfg) (atrs ! 0))
       \<and> direction (rs ! 0) =
           (if js_le (close (barOf ohlc cfg 0)) (basicLowerBand (rs ! 0)) then Down else Up)"
  by (simp add: calculateSupertrend_first[OF assms(1) assms(2)])

text \<open>
  The chain of tests ends in its final \<^verbatim>\<open>else\<close> exactly when the close, or the band the
  previous direction is tested against, is NaN.
\<close>

lemma directionBranch_Up:
  "directionBranch Up c fl fu =
     (if js_gt c fl then StayUp else if js_le c fl then FlipDown else Fallback)"
  by (simp add: directionBranch_def)

lemma directionBranch_Down:
  "directionBranch Down c fl fu =
     (if js_lt c fu then StayDown else if js_ge c fu then FlipUp else Fallback)"
  by (simp add: directionBranch_def)

lemma directionBranch_Fallback:
  "directionBranch d c fl fu = Fallback \<longleftrightarrow> c = NaN \<or> (if d = Up then fl else fu) = NaN"
proof (cases d)
  case Up
  show ?thesis
  proof (cases "c = NaN \<or> fl = NaN")
    case True
    then have "\<not> js_gt c fl" "\<not> js_le c fl"
      using js_lt_not_NaN[of fl c] js_le_not_NaN[of c fl] by (auto simp: js_gt_def)
    then show ?thesis using Up True by (simp add: directionBranch_Up)
  next
    case False
    then have "js_gt c fl \<or> js_le c fl"
      using js_lt_iff_not_le[of fl c] by (auto simp: js_gt_def)
    then show ?thesis using Up False by (auto simp: directionBranch_Up)
  qed
next
  case Down
  show ?thesis
  proof (cases "c = NaN \<or> fu = NaN")
    case True
    then have "\<not> js_lt c fu" "\<not> js_ge c fu"
      using js_lt_not_NaN[of c fu] js_le_not_NaN[of fu c] by (auto simp: js_ge_def)
    then show ?thesis using Down True by (simp add: directionBranch_Down)
  next
    case False
    then have "js_lt c fu \<or> js_ge c fu"
      using js_lt_iff_not_le[of c fu] by (auto simp: js_ge_def)
    then show ?thesis using Down False by (auto simp: directionBranch_Down)
  qed
qed

lemma four_tests_count:
  "length (filter id
     [d = Up \<and> js_gt c fl, d = Up \<and> js_le c fl, d = Down \<and> js_lt c fu, d = Down \<and> js_ge c fu])
   = (if c = NaN \<or> (if d = Up then fl else fu) = NaN then 0 else 1)"
proof (cases d)
  case Up
  show ?thesis
  proof (cases "c = NaN \<or> fl = NaN")
    case True
    then have "\<not> js_gt c fl" "\<not> js_le c fl"
      using js_lt_not_NaN[of fl c] js_le_not_NaN[of c fl] by (auto simp: js_gt_def)
    then show ?thesis using Up True by simp
  next
    case False
    then have "js_gt c fl \<longleftrightarrow> \<not> js_le c fl"
      using js_lt_iff_not_le[of fl c] by (auto simp: js_gt_def)
    then show ?thesis using Up False by auto
  qed
next
  case Down
  show ?thesis
  proof (cases "c = NaN \<or> fu = NaN")
    case True
    then have "\<not> js_lt c fu" "\<not> js_ge c fu"
      using js_lt_not_NaN[of c fu] js_le_not_NaN[of fu c] by (auto simp: js_ge_def)
    then show ?thesis using Down True by simp
  next
    case False
    then have "js_lt c fu \<longleftrightarrow> \<not> js_ge c fu"
      using js_lt_iff_not_le[of c fu] by (auto simp: js_ge_def)
    then show ?thesis using Down False by auto
  qed
qed

text \<open>The outcome of a call is decided by the length of the input and the period.\<close>

lemma calculateSupertrend_outcome:
  "(int (length ohlc) < atrPeriod cfg + 1
      \<and> calculateSupertrend ohlc cfg =
          Inl (InsufficientData ''Supertrend'' (atrPeriod cfg + 1) (length ohlc)))
   \<or> (atrPeriod cfg + 1 \<le> int (length ohlc) \<and> atrPeriod cfg \<le> 0
      \<and> calculateSupertrend ohlc cfg = Inl TypeError)
   \<or> (atrPeriod cfg + 1 \<le> int (length ohlc) \<and> 1 \<le> atrPeriod cfg
      \<and> (\<exists>rs. calculateSupertrend ohlc cfg = Inr rs \<and> rs \<noteq> []
            \<and> int (length rs) = int (length ohlc) - atrPeriod cfg + 1))"
proof (cases "int (length ohlc) < atrPeriod cfg + 1")
  case True
  then show ?thesis by (simp add: calculateSupertrend_short)
next
  case False
  then have a: "atrPeriod cfg + 1 \<le> int (length ohlc)" by simp
  show ?thesis
  proof (cases "atrPeriod cfg \<le> 0")
    case True
    then show ?thesis using a by (simp add: calculateSupertrend_nonpos)
  next
    case False
    then have b: "1 \<le> atrPeriod cfg" by simp
    from calculateSupertrend_returns[OF b a]
    obtain rs where rs: "calculateSupertrend ohlc cfg = Inr rs" by blast
    from calculateSupertrend_char[OF rs]
    have l: "int (length rs) = int (length ohlc) - atrPeriod cfg + 1" by auto
    then have "rs \<noteq> []" using a by auto
    with rs l a b show ?thesis by blast
  qed
qed

lemma calculateSupertrend_not_UndefinedValue: "calculateSupertrend ohlc cfg \<noteq> Inl UndefinedValue"
  using calculateSupertrend_outcome[of ohlc cfg] by auto

lemma getLatest_of_result:
  "calculateSupertrend ohlc c = Inr rs \<Longrightarrow> rs \<noteq> [] \<Longrightarrow>
     getLatestSupertrendSignal ohlc (Some c) = Inr (Some (last rs))"
  by (simp add: getLatestSupertrendSignal_def js_last_Some)

lemma getLatest_of_error:
  "calculateSupertrend ohlc c = Inl e \<Longrightarrow> getLatestSupertrendSignal ohlc (Some c) = Inr None"
  using calculateSupertrend_not_UndefinedValue[of ohlc c]
  by (cases e) (simp_all add: getLatestSupertrendSignal_def)

lemma getLatest_default:
  "getLatestSupertrendSignal ohlc None = getLatestSupertrendSignal ohlc (Some defaultConfig)"
  by (simp add: getLatestSupertrendSignal_def)

lemma validateOHLCData_iff: "validateOHLCData ohlc \<longleftrightarrow> (\<forall>bar \<in> set ohlc. validBar bar)"
  unfolding validateOHLCData_def validBar_def list_all_iff js_ge_def
  by (meson js_le_trans)

section \<open>The entries of the orchestrator\<close>

lemma timeframeStep_other:
  "tf \<noteq> tf' \<Longrightarrow> timeframeStep ohlc result tf' tf = result tf"
  by (simp add: timeframeStep_def Let_def)

lemma timeframeStep_same:
  "timeframeStep ohlc result tf tf =
     (if atrPeriod (configs tf) + 1
           \<le> int (length (js_slice_last ohlc (dataLengthOf tf (length ohlc))))
      then getLatestSupertrendSignal (js_slice_last ohlc (dataLengthOf tf (length ohlc)))
             (Some (configs tf))
      else result tf)"
  by (simp add: timeframeStep_def Let_def)

lemma forEach_timeframes:
  "foldl (timeframeStep ohlc) result [TF_45M, TF_2H, TF_4H, TF_1D, TF_3D, TF_1W] tf =
     timeframeStep ohlc result tf tf"
  by (cases tf) (simp_all add: timeframeStep_other timeframeStep_same)

lemma orchestrator_entry:
  "calculateSupertrendForTimeframes ohlc tf =
     (if length ohlc < 15 then Inr None
      else if atrPeriod (configs tf) + 1
                \<le> int (length (js_slice_last ohlc (dataLengthOf tf (length ohlc))))
           then getLatestSupertrendSignal (js_slice_last ohlc (dataLengthOf tf (length ohlc)))
                  (Some (configs tf))
           else Inr None)"
  unfolding calculateSupertrendForTimeframes_def Let_def forEach_timeframes
  by (simp add: timeframeStep_same)

lemma dataLengthOf_bounds:
  "15 \<le> n \<Longrightarrow> 0 < dataLengthOf tf n \<and> dataLengthOf tf n \<le> n"
  by (cases tf) (simp_all add: dataLengthOf_def)

lemma slice_is_suffix:
  assumes "15 \<le> length ohlc"
  shows "js_slice_last ohlc (dataLengthOf tf (length ohlc))
           = drop (length ohlc - dataLengthOf tf (length ohlc)) ohlc"
    and "length (js_slice_last ohlc (dataLengthOf tf (length ohlc))) = dataLengthOf tf (length ohlc)"
  using dataLengthOf_bounds[OF assms, of tf] by (simp_all add: js_slice_last_def)

lemma configs_period_pos: "1 \<le> atrPeriod (configs tf)"
  by (cases tf) (simp_all add: configs_def)

section \<open>Finite values, true ranges and converted prices\<close>

text \<open>
  When a sum, a product or a quotient is finite, its operands were finite and the result is
  the exact one.
\<close>

lemma js_num_Finite: "js_num x = Finite a \<Longrightarrow> a = x \<and> js_num a = Finite a"
  by (auto simp: js_num_def split: if_splits)

lemma js_norm_Finite: "js_norm u = Finite a \<Longrightarrow> u = Finite a \<and> js_norm (Finite a) = Finite a"
  using js_num_Finite by (cases u) auto










text \<open>A price that is not negative lies between its 0.99-fold and its 1.01-fold.\<close>

lemma price_bracket:
  assumes "js_le (Finite 0) p"
  shows "js_le (js_mul p (Finite 0.99)) p \<and> js_le p (js_mul p (Finite 1.01))
       \<and> js_le (js_mul p (Finite 0.99)) (js_mul p (Finite 1.01))"
proof (cases "js_norm p")
  case (Finite x)
  then have x: "0 \<le> x" "x < overflowBound" "- overflowBound < x"
    using assms js_num_Finite[of _ x]
    by (cases p; auto simp: js_le_def js_place_def js_num_def split: if_splits)+
  have b: "(101 / 100 :: real) < overflowBound" "(99 / 100 :: real) < overflowBound"
    by (simp_all add: overflowBound_def)
  show ?thesis
    using Finite x b
    by (auto simp: js_le_def js_place_def js_mul_def js_num_def split: if_splits)
next
  case PosInf
  then show ?thesis
    by (auto simp: js_le_def js_place_def js_mul_def js_num_def overflowBound_def)
next
  case NegInf
  then show ?thesis using assms
    by (auto simp: js_le_def js_place_def js_num_def overflowBound_def split: if_splits)
next
  case NaN
  then show ?thesis using assms by (auto simp: js_le_def js_place_def split: option.splits)
qed

section \<open>The worked examples, evaluated\<close>

lemma overflowBound_power: "overflowBound = 2 ^ 1024"
  by (simp add: overflowBound_def)


lemma example_run: "calculateSupertrend exampleBars exampleConfig = Inr exampleResults"
  by code_simp



lemma overflow_run: "calculateSupertrend overflowBars overflowConfig = Inr overflowResults"
  by code_simp

lemma overflow_valid: "validateOHLCData overflowBars"
  by code_simp


lemma swing_valid: "validateOHLCData swingBars"
  by code_simp



section \<open>Properties of the bands\<close>







section \<open>Length, failure and the ATR values\<close>

text \<open>
  Claim C3 (length of the result, and failure).  \<^verbatim>\<open>calculateSupertrend\<close> throws the
  insufficient-data error if and only if the input has fewer than \<^verbatim>\<open>atrPeriod + 1\<close> bars,
  and the error names \<^verbatim>\<open>atrPeriod + 1\<close> and the length.  With a period of at least 1 and
  enough bars it returns exactly \<open>length input - atrPeriod + 1\<close> results, one per input
  bar from index \<^verbatim>\<open>atrPeriod - 1\<close> onward.  The period of at least 1 is needed: with a
  period of 0 and one bar the input is long enough, and the call throws a \<^verbatim>\<open>TypeError\<close>.
\<close>

theorem supertrend_length_and_failure:
  "((\<exists>e. calculateSupertrend ohlc cfg = Inl e \<and> isInsufficientData e)
      \<longleftrightarrow> int (length ohlc) < atrPeriod cfg + 1)
   \<and> (int (length ohlc) < atrPeriod cfg + 1 \<longrightarrow>
        calculateSupertrend ohlc cfg =
          Inl (InsufficientData ''Supertrend'' (atrPeriod cfg + 1) (length ohlc)))
   \<and> (1 \<le> atrPeriod cfg \<and> atrPeriod cfg + 1 \<le> int (length ohlc) \<longrightarrow>
        (\<exists>rs. calculateSupertrend ohlc cfg = Inr rs
           \<and> int (length rs) = int (length ohlc) - atrPeriod cfg + 1
           \<and> (\<forall>k. k < length rs \<longrightarrow> nat (atrPeriod cfg - 1) + k < length ohlc)))"
proof -
  have short: "calculateSupertrend ohlc cfg =
          Inl (InsufficientData ''Supertrend'' (atrPeriod cfg + 1) (length ohlc))"
    if "int (length ohlc) < atrPeriod cfg + 1"
    using that by (rule calculateSupertrend_short)
  have notshort: "\<not> isInsufficientData e"
    if "calculateSupertrend ohlc cfg = Inl e" "\<not> int (length ohlc) < atrPeriod cfg + 1" for e
  proof (cases "atrPeriod cfg \<le> 0")
    case True
    then have "calculateSupertrend ohlc cfg = Inl TypeError"
      using that(2) by (intro calculateSupertrend_nonpos) auto
    with that(1) show ?thesis by (simp add: isInsufficientData_def)
  next
    case False
    then have "\<exists>rs. calculateSupertrend ohlc cfg = Inr rs"
      using that(2) by (intro calculateSupertrend_returns) auto
    with that(1) show ?thesis by auto
  qed
  have iff: "(\<exists>e. calculateSupertrend ohlc cfg = Inl e \<and> isInsufficientData e)
      \<longleftrightarrow> int (length ohlc) < atrPeriod cfg + 1"
    using short notshort by (auto simp: isInsufficientData_def)
  have ok: "\<exists>rs. calculateSupertrend ohlc cfg = Inr rs
           \<and> int (length rs) = int (length ohlc) - atrPeriod cfg + 1
           \<and> (\<forall>k. k < length rs \<longrightarrow> nat (atrPeriod cfg - 1) + k < length ohlc)"
    if p: "1 \<le> atrPeriod cfg" and len: "atrPeriod cfg + 1 \<le> int (length ohlc)"
  proof -
    from calculateSupertrend_returns[OF p len]
    obtain rs where rs: "calculateSupertrend ohlc cfg = Inr rs" by blast
    from calculateSupertrend_char[OF rs]
    have l: "int (length rs) = int (length ohlc) - atrPeriod cfg + 1" by auto
    have "\<forall>k. k < length rs \<longrightarrow> nat (atrPeriod cfg - 1) + k < length ohlc"
      using l p by auto
    with rs l show ?thesis by blast
  qed
  show ?thesis using iff short ok by blast
qed

theorem supertrend_length_and_failure_witness:
  "int (length exampleBars) < atrPeriod \<lparr>atrPeriod = 5, factor = Finite 3\<rparr> + 1
   \<and> calculateSupertrend exampleBars \<lparr>atrPeriod = 5, factor = Finite 3\<rparr>
        = Inl (InsufficientData ''Supertrend'' 6 5)
   \<and> 1 \<le> atrPeriod exampleConfig \<and> atrPeriod exampleConfig + 1 \<le> int (length exampleBars)
   \<and> (\<exists>rs. calculateSupertrend exampleBars exampleConfig = Inr rs \<and> int (length rs) = 5 - 2 + 1)"
proof -
  have a: "int (length exampleBars) < atrPeriod \<lparr>atrPeriod = 5, factor = Finite 3\<rparr> + 1"
    by (simp add: exampleBars_def)
  have b: "1 \<le> atrPeriod exampleConfig \<and> atrPeriod exampleConfig + 1 \<le> int (length exampleBars)"
    by (simp add: exampleBars_def exampleConfig_def)
  from supertrend_length_and_failure[of exampleBars "\<lparr>atrPeriod = 5, factor = Finite 3\<rparr>"] a
  have c: "calculateSupertrend exampleBars \<lparr>atrPeriod = 5, factor = Finite 3\<rparr>
        = Inl (InsufficientData ''Supertrend'' 6 5)" by (simp add: exampleBars_def)
  from supertrend_length_and_failure[of exampleBars exampleConfig] b
  obtain rs where rs: "calculateSupertrend exampleBars exampleConfig = Inr rs"
    "int (length rs) = int (length exampleBars) - atrPeriod exampleConfig + 1"
    by blast
  have "int (length rs) = 5 - 2 + 1"
    using rs(2) by (simp add: exampleBars_def exampleConfig_def)
  with rs(1)
  have d: "\<exists>rs. calculateSupertrend exampleBars exampleConfig = Inr rs \<and> int (length rs) = 5 - 2 + 1"
    by blast
  show ?thesis using a b c d by blast
qed

theorem supertrend_zero_period_counterexample:
  "\<not> int (length [\<lparr>openPrice = Finite 6, high = Finite 7, low = Finite 4, close = Finite 4,
                      volume = Finite 100, time = ''2024-01-01''\<rparr>])
        < atrPeriod \<lparr>atrPeriod = 0, factor = Finite 3\<rparr> + 1
   \<and> calculateSupertrend
        [\<lparr>openPrice = Finite 6, high = Finite 7, low = Finite 4, close = Finite 4,
           volume = Finite 100, time = ''2024-01-01''\<rparr>]
        \<lparr>atrPeriod = 0, factor = Finite 3\<rparr> = Inl TypeError"
  by code_simp



section \<open>The timeframe orchestrator\<close>




section \<open>Signals and the branches of the direction test\<close>

text \<open>
  Claim C6 (signals and flips).  The claim is that a bar carries a buy or sell signal if
  and only if its direction differs from the direction of the previous output bar.  One
  half holds for every input: the first element has the signal hold, a buy signal occurs
  only on a flip from down to up, and a sell signal only on a flip from up to down.  The
  other half holds when neither the close of the bar nor the band it is tested against
  (the lower band after up, the upper band after down) is NaN: then buy is exactly the
  flip from down to up, sell exactly the flip from up to down, and hold exactly an
  unchanged direction.  When the close or that band is NaN, the final \<^verbatim>\<open>else\<close> of the
  source decides: the signal is hold and the direction is up when the close is greater
  than \<open>hl2\<close> and down otherwise, whatever the previous direction was.  This happens for
  finite, valid bars: in the run over the overflow bars the direction changes from down
  to up on the last bar and the signal is hold.
\<close>

theorem signal_only_on_flip:
  assumes "calculateSupertrend ohlc cfg = Inr rs" and "k < length rs"
  shows "(k = 0 \<longrightarrow> signal (rs ! k) = Hold)
       \<and> (0 < k \<longrightarrow>
            (signal (rs ! k) = Buy \<longrightarrow>
               direction (rs ! (k - 1)) = Down \<and> direction (rs ! k) = Up) \<and>
            (signal (rs ! k) = Sell \<longrightarrow>
               direction (rs ! (k - 1)) = Up \<and> direction (rs ! k) = Down) \<and>
            (close (barOf ohlc cfg k) \<noteq> NaN
               \<and> (if direction (rs ! (k - 1)) = Up then basicLowerBand (rs ! k)
                   else basicUpperBand (rs ! k)) \<noteq> NaN \<longrightarrow>
               (signal (rs ! k) = Buy \<longleftrightarrow>
                  direction (rs ! (k - 1)) = Down \<and> direction (rs ! k) = Up) \<and>
               (signal (rs ! k) = Sell \<longleftrightarrow>
                  direction (rs ! (k - 1)) = Up \<and> direction (rs ! k) = Down) \<and>
               (signal (rs ! k) = Hold \<longleftrightarrow> direction (rs ! k) = direction (rs ! (k - 1)))) \<and>
            (close (barOf ohlc cfg k) = NaN
               \<or> (if direction (rs ! (k - 1)) = Up then basicLowerBand (rs ! k)
                   else basicUpperBand (rs ! k)) = NaN \<longrightarrow>
               signal (rs ! k) = Hold \<and>
               direction (rs ! k) =
                 (if js_gt (close (barOf ohlc cfg k)) (hl2 (barOf ohlc cfg k)) then Up else Down)))"
proof (cases "k = 0")
  case True
  from calculateSupertrend_char[OF assms(1)]
  obtain atrs where atrs: "calculateATR ohlc (atrPeriod cfg) = Inr atrs" by blast
  show ?thesis using True first_bar_fields[OF assms(1) atrs] by simp
next
  case False
  then have k: "0 < k" by simp
  define d where "d = direction (rs ! (k - 1))"
  define C where "C = close (barOf ohlc cfg k)"
  define L where "L = basicLowerBand (rs ! k)"
  define U where "U = basicUpperBand (rs ! k)"
  define H where "H = hl2 (barOf ohlc cfg k)"
  define b where "b = directionBranch d C L U"
  have out: "(direction (rs ! k), value (rs ! k), signal (rs ! k)) = branchOutcome b C H L U"
    using later_bar_outcome[OF assms(1) k assms(2)]
    unfolding b_def d_def C_def L_def U_def H_def by simp
  have fb: "b = Fallback \<longleftrightarrow> C = NaN \<or> (if d = Up then L else U) = NaN"
    unfolding b_def by (rule directionBranch_Fallback)
  have up: "d = Up \<longrightarrow> b = StayUp \<or> b = FlipDown \<or> b = Fallback"
    unfolding b_def by (simp add: directionBranch_Up)
  have down: "d = Down \<longrightarrow> b = StayDown \<or> b = FlipUp \<or> b = Fallback"
    unfolding b_def by (simp add: directionBranch_Down)
  have dd: "d = Up \<or> d = Down" by (cases d) simp_all
  have sd: "(b = StayUp \<longrightarrow> signal (rs ! k) = Hold \<and> direction (rs ! k) = Up)
          \<and> (b = FlipDown \<longrightarrow> signal (rs ! k) = Sell \<and> direction (rs ! k) = Down)
          \<and> (b = StayDown \<longrightarrow> signal (rs ! k) = Hold \<and> direction (rs ! k) = Down)
          \<and> (b = FlipUp \<longrightarrow> signal (rs ! k) = Buy \<and> direction (rs ! k) = Up)
          \<and> (b = Fallback \<longrightarrow> signal (rs ! k) = Hold
                \<and> direction (rs ! k) = (if js_gt C H then Up else Down))"
    using out by (cases b) (simp_all add: branchOutcome_def Let_def)
  have buy: "signal (rs ! k) = Buy \<longrightarrow> d = Down \<and> direction (rs ! k) = Up"
    using sd up down dd by (cases b) auto
  have sell: "signal (rs ! k) = Sell \<longrightarrow> d = Up \<and> direction (rs ! k) = Down"
    using sd up down dd by (cases b) auto
  have full: "(signal (rs ! k) = Buy \<longleftrightarrow> d = Down \<and> direction (rs ! k) = Up) \<and>
              (signal (rs ! k) = Sell \<longleftrightarrow> d = Up \<and> direction (rs ! k) = Down) \<and>
              (signal (rs ! k) = Hold \<longleftrightarrow> direction (rs ! k) = d)"
    if "C \<noteq> NaN \<and> (if d = Up then L else U) \<noteq> NaN"
  proof -
    have "b \<noteq> Fallback" using fb that by simp
    then show ?thesis using sd up down dd by (cases b) auto
  qed
  have nan: "signal (rs ! k) = Hold \<and>
             direction (rs ! k) = (if js_gt C H then Up else Down)"
    if "C = NaN \<or> (if d = Up then L else U) = NaN"
  proof -
    have "b = Fallback" using fb that by simp
    then show ?thesis using sd by simp
  qed
  show ?thesis
    using k buy sell full nan unfolding d_def C_def L_def U_def H_def by blast
qed

theorem signal_only_on_flip_witness:
  "calculateSupertrend exampleBars exampleConfig = Inr exampleResults
   \<and> 0 < length exampleResults \<and> signal (exampleResults ! 0) = Hold
   \<and> 1 < length exampleResults \<and> signal (exampleResults ! 1) = Buy
   \<and> close (barOf exampleBars exampleConfig 1) \<noteq> NaN
   \<and> basicUpperBand (exampleResults ! 1) \<noteq> NaN
   \<and> direction (exampleResults ! (1 - 1)) = Down \<and> direction (exampleResults ! 1) = Up
   \<and> calculateSupertrend overflowBars overflowConfig = Inr overflowResults
   \<and> 3 < length overflowResults \<and> signal (overflowResults ! 3) = Sell
   \<and> direction (overflowResults ! (3 - 1)) = Up \<and> direction (overflowResults ! 3) = Down
   \<and> 4 < length overflowResults
   \<and> direction (overflowResults ! (4 - 1)) = Down
   \<and> basicUpperBand (overflowResults ! 4) = NaN
   \<and> js_gt (close (barOf overflowBars overflowConfig 4)) (hl2 (barOf overflowBars overflowConfig 4))
   \<and> signal (overflowResults ! 4) = Hold \<and> direction (overflowResults ! 4) = Up"
proof -
  have k: "0 < length exampleResults" "1 < length exampleResults"
    "3 < length overflowResults" "4 < length overflowResults"
    by (simp_all add: exampleResults_def overflowResults_def)
  have hyp:
    "signal (exampleResults ! 1) = Buy
     \<and> close (barOf exampleBars exampleConfig 1) \<noteq> NaN
     \<and> basicUpperBand (exampleResults ! 1) \<noteq> NaN
     \<and> signal (overflowResults ! 3) = Sell
     \<and> direction (overflowResults ! (4 - 1)) = Down
     \<and> basicUpperBand (overflowResults ! 4) = NaN
     \<and> js_gt (close (barOf overflowBars overflowConfig 4))
          (hl2 (barOf overflowBars overflowConfig 4))"
    by code_simp
  have z: "(0::nat) < 1" "(0::nat) < 3" "(0::nat) < 4" by simp_all
  have tested:
    "(if direction (exampleResults ! (1 - 1)) = Up then basicLowerBand (exampleResults ! 1)
      else basicUpperBand (exampleResults ! 1)) \<noteq> NaN"
    "(if direction (overflowResults ! (4 - 1)) = Up then basicLowerBand (overflowResults ! 4)
      else basicUpperBand (overflowResults ! 4)) = NaN"
    by code_simp+
  have first: "signal (exampleResults ! 0) = Hold"
    using signal_only_on_flip[OF example_run k(1)] by blast
  have buy: "direction (exampleResults ! (1 - 1)) = Down \<and> direction (exampleResults ! 1) = Up"
    using signal_only_on_flip[OF example_run k(2)] hyp z(1) tested(1) by blast
  have sell: "direction (overflowResults ! (3 - 1)) = Up \<and> direction (overflowResults ! 3) = Down"
    using signal_only_on_flip[OF overflow_run k(3)] hyp z(2) by blast
  have "signal (overflowResults ! 4) = Hold \<and>
        direction (overflowResults ! 4) =
          (if js_gt (close (barOf overflowBars overflowConfig 4))
                (hl2 (barOf overflowBars overflowConfig 4)) then Up else Down)"
    using signal_only_on_flip[OF overflow_run k(4)] z(3) tested(2) by blast
  moreover have "js_gt (close (barOf overflowBars overflowConfig 4))
                   (hl2 (barOf overflowBars overflowConfig 4))"
    using hyp by blast
  ultimately have nan: "signal (overflowResults ! 4) = Hold \<and> direction (overflowResults ! 4) = Up"
    by presburger
  show ?thesis using example_run overflow_run k hyp first buy sell nan by blast
qed

theorem unsignalled_flip_counterexample:
  "validateOHLCData overflowBars
   \<and> calculateSupertrend overflowBars overflowConfig = Inr overflowResults
   \<and> direction (overflowResults ! 3) = Down
   \<and> direction (overflowResults ! 4) = Up
   \<and> signal (overflowResults ! 4) = Hold"
proof -
  have "direction (overflowResults ! 3) = Down
   \<and> direction (overflowResults ! 4) = Up
   \<and> signal (overflowResults ! 4) = Hold"
    by (simp add: overflowResults_def)
  then show ?thesis using overflow_valid overflow_run by blast
qed

text \<open>
  Claim C7 (the fallback branch).  The claim is that the final \<^verbatim>\<open>else\<close> of the chain of
  direction tests is never executed.  It is executed exactly when the close of the bar
  is NaN or the band the close is tested against (the lower band after up, the upper band
  after down) is NaN: then none of the four tests holds, and otherwise exactly one of
  them holds.  In every case the direction, value and signal of the element are those
  the selected branch assigns.  A NaN band arises from finite, valid bars whose range
  overflows: in the run over the overflow bars the last bar takes the final \<^verbatim>\<open>else\<close>.
\<close>

theorem fallback_only_on_NaN:
  assumes "calculateSupertrend ohlc cfg = Inr rs" and "0 < k" and "k < length rs"
  shows "(directionBranch (direction (rs ! (k - 1))) (close (barOf ohlc cfg k))
             (basicLowerBand (rs ! k)) (basicUpperBand (rs ! k)) = Fallback
          \<longleftrightarrow> close (barOf ohlc cfg k) = NaN
               \<or> (if direction (rs ! (k - 1)) = Up then basicLowerBand (rs ! k)
                   else basicUpperBand (rs ! k)) = NaN)
       \<and> (direction (rs ! k), value (rs ! k), signal (rs ! k)) =
           branchOutcome
             (directionBranch (direction (rs ! (k - 1))) (close (barOf ohlc cfg k))
                (basicLowerBand (rs ! k)) (basicUpperBand (rs ! k)))
             (close (barOf ohlc cfg k)) (hl2 (barOf ohlc cfg k))
             (basicLowerBand (rs ! k)) (basicUpperBand (rs ! k))
       \<and> length (filter id
            [direction (rs ! (k - 1)) = Up
               \<and> js_gt (close (barOf ohlc cfg k)) (basicLowerBand (rs ! k)),
             direction (rs ! (k - 1)) = Up
               \<and> js_le (close (barOf ohlc cfg k)) (basicLowerBand (rs ! k)),
             direction (rs ! (k - 1)) = Down
               \<and> js_lt (close (barOf ohlc cfg k)) (basicUpperBand (rs ! k)),
             direction (rs ! (k - 1)) = Down
               \<and> js_ge (close (barOf ohlc cfg k)) (basicUpperBand (rs ! k))])
          = (if close (barOf ohlc cfg k) = NaN
                \<or> (if direction (rs ! (k - 1)) = Up then basicLowerBand (rs ! k)
                    else basicUpperBand (rs ! k)) = NaN
             then 0 else 1)"
  using later_bar_outcome[OF assms(1) assms(2) assms(3)]
    directionBranch_Fallback[of "direction (rs ! (k - 1))" "close (barOf ohlc cfg k)"
      "basicLowerBand (rs ! k)" "basicUpperBand (rs ! k)"]
    four_tests_count[of "direction (rs ! (k - 1))" "close (barOf ohlc cfg k)"
      "basicLowerBand (rs ! k)" "basicUpperBand (rs ! k)"]
  by blast

theorem fallback_only_on_NaN_witness:
  "calculateSupertrend exampleBars exampleConfig = Inr exampleResults
   \<and> (0::nat) < 2 \<and> 2 < length exampleResults
   \<and> close (barOf exampleBars exampleConfig 2) \<noteq> NaN
   \<and> direction (exampleResults ! (2 - 1)) = Up
   \<and> basicLowerBand (exampleResults ! 2) \<noteq> NaN
   \<and> directionBranch (direction (exampleResults ! (2 - 1)))
        (close (barOf exampleBars exampleConfig 2))
        (basicLowerBand (exampleResults ! 2)) (basicUpperBand (exampleResults ! 2)) \<noteq> Fallback
   \<and> calculateSupertrend overflowBars overflowConfig = Inr overflowResults
   \<and> (0::nat) < 4 \<and> 4 < length overflowResults
   \<and> direction (overflowResults ! (4 - 1)) = Down
   \<and> basicUpperBand (overflowResults ! 4) = NaN
   \<and> directionBranch (direction (overflowResults ! (4 - 1)))
        (close (barOf overflowBars overflowConfig 4))
        (basicLowerBand (overflowResults ! 4)) (basicUpperBand (overflowResults ! 4)) = Fallback"
proof -
  have k: "(0::nat) < 2" "2 < length exampleResults" "(0::nat) < 4" "4 < length overflowResults"
    by (simp_all add: exampleResults_def overflowResults_def)
  have hyp:
    "close (barOf exampleBars exampleConfig 2) \<noteq> NaN
     \<and> direction (exampleResults ! (2 - 1)) = Up
     \<and> basicLowerBand (exampleResults ! 2) \<noteq> NaN
     \<and> direction (overflowResults ! (4 - 1)) = Down
     \<and> basicUpperBand (overflowResults ! 4) = NaN"
    by code_simp
  have named: "directionBranch (direction (exampleResults ! (2 - 1)))
        (close (barOf exampleBars exampleConfig 2))
        (basicLowerBand (exampleResults ! 2)) (basicUpperBand (exampleResults ! 2)) \<noteq> Fallback"
    using fallback_only_on_NaN[OF example_run k(1) k(2)] hyp by simp
  have fb: "directionBranch (direction (overflowResults ! (4 - 1)))
        (close (barOf overflowBars overflowConfig 4))
        (basicLowerBand (overflowResults ! 4)) (basicUpperBand (overflowResults ! 4)) = Fallback"
    using fallback_only_on_NaN[OF overflow_run k(3) k(4)] hyp by simp
  show ?thesis using example_run overflow_run k hyp named fb by simp
qed

theorem fallback_executed_counterexample:
  "validateOHLCData overflowBars
   \<and> calculateSupertrend overflowBars overflowConfig = Inr overflowResults
   \<and> direction (overflowResults ! 3) = Down
   \<and> \<not> js_lt (close (overflowBars ! 4)) (basicUpperBand (overflowResults ! 4))
   \<and> \<not> js_ge (close (overflowBars ! 4)) (basicUpperBand (overflowResults ! 4))
   \<and> directionBranch (direction (overflowResults ! 3)) (close (overflowBars ! 4))
        (basicLowerBand (overflowResults ! 4)) (basicUpperBand (overflowResults ! 4)) = Fallback
   \<and> (direction (overflowResults ! 4), value (overflowResults ! 4), signal (overflowResults ! 4))
        = branchOutcome Fallback (close (overflowBars ! 4))
            (js_div (js_add (high (overflowBars ! 4)) (low (overflowBars ! 4))) (Finite 2))
            (basicLowerBand (overflowResults ! 4)) (basicUpperBand (overflowResults ! 4))"
proof -
  have "direction (overflowResults ! 3) = Down
   \<and> \<not> js_lt (close (overflowBars ! 4)) (basicUpperBand (overflowResults ! 4))
   \<and> \<not> js_ge (close (overflowBars ! 4)) (basicUpperBand (overflowResults ! 4))
   \<and> directionBranch (direction (overflowResults ! 3)) (close (overflowBars ! 4))
        (basicLowerBand (overflowResults ! 4)) (basicUpperBand (overflowResults ! 4)) = Fallback
   \<and> (direction (overflowResults ! 4), value (overflowResults ! 4), signal (overflowResults ! 4))
        = branchOutcome Fallback (close (overflowBars ! 4))
            (js_div (js_add (high (overflowBars ! 4)) (low (overflowBars ! 4))) (Finite 2))
            (basicLowerBand (overflowResults ! 4)) (basicUpperBand (overflowResults ! 4))"
    by code_simp
  then show ?thesis using overflow_valid overflow_run by blast
qed

section \<open>Validation, the latest signal and conversion\<close>

text \<open>
  Claim C8 (rejection of invalid bars).  The claim is that a bar violating the ordering
  invariant is rejected before computation.  No function of the engine does so.
  \<^verbatim>\<open>validateOHLCData\<close> is a predicate of its own, true exactly when every bar satisfies
  the invariant.  The outcome of \<^verbatim>\<open>calculateSupertrend\<close> is decided by the length of the
  input and the period alone: the insufficient-data error when the input has fewer than
  \<^verbatim>\<open>atrPeriod + 1\<close> bars, a \<^verbatim>\<open>TypeError\<close> when it has enough and the period is 0 or less,
  and a result sequence of \<open>length input - atrPeriod + 1\<close> elements otherwise, whether
  the bars are valid or not.  The orchestrator, the only caller, does not validate
  either: for every master sequence of at least 15 bars it records a result for 45M.
  Two bars of which the first has its high below its low give bands computed from that
  bar.
\<close>

theorem no_bar_validation:
  "(validateOHLCData ohlc \<longleftrightarrow> (\<forall>bar \<in> set ohlc. validBar bar))
   \<and> (int (length ohlc) < atrPeriod cfg + 1 \<longrightarrow>
        calculateSupertrend ohlc cfg =
          Inl (InsufficientData ''Supertrend'' (atrPeriod cfg + 1) (length ohlc)))
   \<and> (atrPeriod cfg + 1 \<le> int (length ohlc) \<and> atrPeriod cfg \<le> 0 \<longrightarrow>
        calculateSupertrend ohlc cfg = Inl TypeError)
   \<and> (atrPeriod cfg + 1 \<le> int (length ohlc) \<and> 1 \<le> atrPeriod cfg \<longrightarrow>
        (\<exists>rs. calculateSupertrend ohlc cfg = Inr rs
           \<and> int (length rs) = int (length ohlc) - atrPeriod cfg + 1))
   \<and> (15 \<le> length ohlc \<longrightarrow>
        (\<exists>r. calculateSupertrendForTimeframes ohlc TF_45M = Inr (Some r)))"
proof -
  have orch: "\<exists>r. calculateSupertrendForTimeframes ohlc TF_45M = Inr (Some r)"
    if n: "15 \<le> length ohlc"
  proof -
    define slice where "slice = js_slice_last ohlc (dataLengthOf TF_45M (length ohlc))"
    have len: "length slice = dataLengthOf TF_45M (length ohlc)"
      unfolding slice_def by (rule slice_is_suffix(2)[OF n])
    have enough: "atrPeriod (configs TF_45M) + 1 \<le> int (length slice)"
      using n len by (simp add: configs_def dataLengthOf_def)
    from calculateSupertrend_outcome[of slice "configs TF_45M"] enough configs_period_pos[of TF_45M]
    obtain rs where rs: "calculateSupertrend slice (configs TF_45M) = Inr rs" "rs \<noteq> []" by auto
    have "calculateSupertrendForTimeframes ohlc TF_45M = Inr (Some (last rs))"
      using n enough getLatest_of_result[OF rs]
      by (simp add: orchestrator_entry slice_def[symmetric])
    then show ?thesis by blast
  qed
  show ?thesis
    using calculateSupertrend_outcome[of ohlc cfg] validateOHLCData_iff[of ohlc] orch
    by auto
qed

theorem no_bar_validation_witness:
  "\<not> validBar (badBars ! 0) \<and> \<not> validateOHLCData badBars
   \<and> atrPeriod \<lparr>atrPeriod = 1, factor = Finite 3\<rparr> + 1 \<le> int (length badBars)
   \<and> 1 \<le> atrPeriod \<lparr>atrPeriod = 1, factor = Finite 3\<rparr>
   \<and> (\<exists>rs. calculateSupertrend badBars \<lparr>atrPeriod = 1, factor = Finite 3\<rparr> = Inr rs
         \<and> int (length rs) = 2)
   \<and> int (length badBars) < atrPeriod defaultConfig + 1
   \<and> calculateSupertrend badBars defaultConfig = Inl (InsufficientData ''Supertrend'' 11 2)
   \<and> atrPeriod \<lparr>atrPeriod = 0, factor = Finite 3\<rparr> + 1 \<le> int (length badBars)
   \<and> atrPeriod \<lparr>atrPeriod = 0, factor = Finite 3\<rparr> \<le> 0
   \<and> calculateSupertrend badBars \<lparr>atrPeriod = 0, factor = Finite 3\<rparr> = Inl TypeError
   \<and> 15 \<le> length (badBars @ flatBars) \<and> \<not> validateOHLCData (badBars @ flatBars)
   \<and> (\<exists>r. calculateSupertrendForTimeframes (badBars @ flatBars) TF_45M = Inr (Some r))"
proof -
  have bad: "\<not> validBar (badBars ! 0)" by code_simp
  have a: "atrPeriod \<lparr>atrPeriod = 1, factor = Finite 3\<rparr> + 1 \<le> int (length badBars)"
    "1 \<le> atrPeriod \<lparr>atrPeriod = 1, factor = Finite 3\<rparr>"
    "int (length badBars) < atrPeriod defaultConfig + 1"
    "atrPeriod \<lparr>atrPeriod = 0, factor = Finite 3\<rparr> + 1 \<le> int (length badBars)"
    "atrPeriod \<lparr>atrPeriod = 0, factor = Finite 3\<rparr> \<le> 0"
    "15 \<le> length (badBars @ flatBars)"
    by (simp_all add: badBars_def flatBars_def defaultConfig_def)
  have m: "badBars ! 0 \<in> set badBars" "badBars ! 0 \<in> set (badBars @ flatBars)"
    by (simp_all add: badBars_def)
  have v: "\<not> validateOHLCData badBars"
    using no_bar_validation[of badBars defaultConfig] bad m(1) by blast
  have v': "\<not> validateOHLCData (badBars @ flatBars)"
    using no_bar_validation[of "badBars @ flatBars" defaultConfig] bad m(2) by blast
  have ok: "\<exists>rs. calculateSupertrend badBars \<lparr>atrPeriod = 1, factor = Finite 3\<rparr> = Inr rs
         \<and> int (length rs) = 2"
    using no_bar_validation[of badBars "\<lparr>atrPeriod = 1, factor = Finite 3\<rparr>"] a(1,2)
    by (simp add: badBars_def)
  have short: "calculateSupertrend badBars defaultConfig =
                 Inl (InsufficientData ''Supertrend'' 11 2)"
    using no_bar_validation[of badBars defaultConfig] a(3)
    by (simp add: badBars_def defaultConfig_def)
  have te: "calculateSupertrend badBars \<lparr>atrPeriod = 0, factor = Finite 3\<rparr> = Inl TypeError"
    using no_bar_validation[of badBars "\<lparr>atrPeriod = 0, factor = Finite 3\<rparr>"] a(4,5) by blast
  have orch: "\<exists>r. calculateSupertrendForTimeframes (badBars @ flatBars) TF_45M = Inr (Some r)"
    using no_bar_validation[of "badBars @ flatBars" defaultConfig] a(6) by blast
  show ?thesis using bad v v' a ok short te orch by blast
qed

theorem invalid_bar_accepted_counterexample:
  "\<not> validBar (badBars ! 0) \<and> \<not> validateOHLCData badBars
   \<and> calculateSupertrend badBars \<lparr>atrPeriod = 1, factor = Finite 3\<rparr> =
       Inr [\<lparr>value = Finite (- 19), direction = Down, signal = Hold, atr = Finite (- 8),
              basicUpperBand = Finite (- 19), basicLowerBand = Finite 29\<rparr>,
            \<lparr>value = Finite 11, direction = Down, signal = Hold, atr = Finite 2,
              basicUpperBand = Finite 11, basicLowerBand = Finite (- 1)\<rparr>]"
  by code_simp

text \<open>
  Claim C9 (the latest signal is total).  \<^verbatim>\<open>getLatestSupertrendSignal\<close> returns for every
  input and every configuration, the default one when none is given.  With a period of
  at least 1 and at least \<^verbatim>\<open>atrPeriod + 1\<close> bars it returns the last element of the
  result sequence of \<^verbatim>\<open>calculateSupertrend\<close>, which is not empty.  Whenever
  \<^verbatim>\<open>calculateSupertrend\<close> throws, it returns \<^verbatim>\<open>null\<close>.  The period of at least 1 is needed:
  with a period of 0 and five bars the input is long enough, the \<^verbatim>\<open>TypeError\<close> is caught
  and the result is \<^verbatim>\<open>null\<close>.
\<close>

theorem latest_signal_total:
  assumes "c = (case config of None \<Rightarrow> defaultConfig | Some c' \<Rightarrow> c')"
  shows "(\<exists>r. getLatestSupertrendSignal ohlc config = Inr r)
       \<and> (1 \<le> atrPeriod c \<and> atrPeriod c + 1 \<le> int (length ohlc) \<longrightarrow>
            (\<exists>rs. calculateSupertrend ohlc c = Inr rs \<and> rs \<noteq> []
               \<and> getLatestSupertrendSignal ohlc config = Inr (Some (last rs))))
       \<and> ((\<exists>e. calculateSupertrend ohlc c = Inl e) \<longrightarrow>
            getLatestSupertrendSignal ohlc config = Inr None)"
proof -
  have g: "getLatestSupertrendSignal ohlc config = getLatestSupertrendSignal ohlc (Some c)"
    using assms by (cases config) (simp_all add: getLatest_default)
  have ok: "\<exists>rs. calculateSupertrend ohlc c = Inr rs \<and> rs \<noteq> []
               \<and> getLatestSupertrendSignal ohlc config = Inr (Some (last rs))"
    if "1 \<le> atrPeriod c \<and> atrPeriod c + 1 \<le> int (length ohlc)"
  proof -
    from calculateSupertrend_outcome[of ohlc c] that
    obtain rs where rs: "calculateSupertrend ohlc c = Inr rs" "rs \<noteq> []" by auto
    then show ?thesis using g getLatest_of_result by auto
  qed
  have err: "getLatestSupertrendSignal ohlc config = Inr None"
    if "\<exists>e. calculateSupertrend ohlc c = Inl e"
    using that g getLatest_of_error by auto
  have tot: "\<exists>r. getLatestSupertrendSignal ohlc config = Inr r"
  proof (cases "calculateSupertrend ohlc c")
    case (Inl e)
    then show ?thesis using err by blast
  next
    case (Inr rs)
    then show ?thesis using g by (simp add: getLatestSupertrendSignal_def)
  qed
  show ?thesis using tot ok err by blast
qed

theorem latest_signal_total_witness:
  "exampleConfig = (case Some exampleConfig of None \<Rightarrow> defaultConfig | Some c' \<Rightarrow> c')
   \<and> 1 \<le> atrPeriod exampleConfig \<and> atrPeriod exampleConfig + 1 \<le> int (length exampleBars)
   \<and> getLatestSupertrendSignal exampleBars (Some exampleConfig) = Inr (Some (last exampleResults))
   \<and> defaultConfig = (case None of None \<Rightarrow> defaultConfig | Some c' \<Rightarrow> c')
   \<and> calculateSupertrend exampleBars defaultConfig = Inl (InsufficientData ''Supertrend'' 11 5)
   \<and> getLatestSupertrendSignal exampleBars None = Inr None"
proof -
  have a: "exampleConfig = (case Some exampleConfig of None \<Rightarrow> defaultConfig | Some c' \<Rightarrow> c')"
    and b: "defaultConfig = (case None of None \<Rightarrow> defaultConfig | Some c' \<Rightarrow> c')"
    by simp_all
  have p: "1 \<le> atrPeriod exampleConfig \<and> atrPeriod exampleConfig + 1 \<le> int (length exampleBars)"
    by (simp add: exampleConfig_def exampleBars_def)
  have e: "calculateSupertrend exampleBars defaultConfig = Inl (InsufficientData ''Supertrend'' 11 5)"
    by (simp add: calculateSupertrend_def defaultConfig_def exampleBars_def)
  from latest_signal_total[OF a, of exampleBars] p example_run
  have x: "getLatestSupertrendSignal exampleBars (Some exampleConfig) = Inr (Some (last exampleResults))"
    by auto
  from latest_signal_total[OF b, of exampleBars] e
  have y: "getLatestSupertrendSignal exampleBars None = Inr None" by blast
  show ?thesis using a b p e x y by blast
qed

theorem latest_signal_zero_period_counterexample:
  "atrPeriod \<lparr>atrPeriod = 0, factor = Finite 3\<rparr> + 1 \<le> int (length exampleBars)
   \<and> getLatestSupertrendSignal exampleBars (Some \<lparr>atrPeriod = 0, factor = Finite 3\<rparr>) = Inr None"
  by code_simp

text \<open>
  Claim C10 (converted prices are valid bars).  For every list of prices that are not
  negative, and any list of dates or none, every bar that \<^verbatim>\<open>convertPricesToOHLC\<close> builds
  has the price as its open and its close, the price times 1.01 as its high, the price
  times 0.99 as its low and the volume 1000000, and \<^verbatim>\<open>validateOHLCData\<close> accepts the
  list.
\<close>

theorem converted_prices_valid:
  assumes "\<forall>p \<in> set prices. js_le (Finite 0) p"
  shows "validateOHLCData (convertPricesToOHLC defaultTime prices dates)
       \<and> length (convertPricesToOHLC defaultTime prices dates) = length prices
       \<and> (\<forall>i < length prices.
            openPrice (convertPricesToOHLC defaultTime prices dates ! i) = prices ! i \<and>
            close (convertPricesToOHLC defaultTime prices dates ! i) = prices ! i \<and>
            high (convertPricesToOHLC defaultTime prices dates ! i)
              = js_mul (prices ! i) (Finite 1.01) \<and>
            low (convertPricesToOHLC defaultTime prices dates ! i)
              = js_mul (prices ! i) (Finite 0.99) \<and>
            volume (convertPricesToOHLC defaultTime prices dates ! i) = Finite 1000000)"
proof -
  have vol: "js_le (Finite 0) (Finite 1000000)"
    by (simp add: js_le_def js_place_def js_num_def overflowBound_def)
  have v: "validateOHLCData (convertPricesToOHLC defaultTime prices dates)"
    unfolding validateOHLCData_def convertPricesToOHLC_def list_all_iff js_ge_def
    using assms price_bracket vol by (auto simp: in_set_enumerate_eq)
  have l: "length (convertPricesToOHLC defaultTime prices dates) = length prices"
    by (simp add: convertPricesToOHLC_def)
  have f: "\<forall>i < length prices.
            openPrice (convertPricesToOHLC defaultTime prices dates ! i) = prices ! i \<and>
            close (convertPricesToOHLC defaultTime prices dates ! i) = prices ! i \<and>
            high (convertPricesToOHLC defaultTime prices dates ! i)
              = js_mul (prices ! i) (Finite 1.01) \<and>
            low (convertPricesToOHLC defaultTime prices dates ! i)
              = js_mul (prices ! i) (Finite 0.99) \<and>
            volume (convertPricesToOHLC defaultTime prices dates ! i) = Finite 1000000"
    by (simp add: convertPricesToOHLC_def nth_enumerate_eq)
  show ?thesis using v l f by blast
qed

theorem converted_prices_valid_witness:
  "js_le (Finite 0) (Finite 100) \<and> js_le (Finite 0) (Finite 0)
   \<and> js_le (Finite 0) (Finite (5 / 2))
   \<and> validateOHLCData
        (convertPricesToOHLC (\<lambda>n i. ''2024-01-01'') [Finite 100, Finite 0, Finite (5 / 2)]
           (Some [''2024-03-01'', '''']))
   \<and> high (convertPricesToOHLC (\<lambda>n i. ''2024-01-01'') [Finite 100, Finite 0, Finite (5 / 2)]
             (Some [''2024-03-01'', '''']) ! 0) = Finite 101
   \<and> low (convertPricesToOHLC (\<lambda>n i. ''2024-01-01'') [Finite 100, Finite 0, Finite (5 / 2)]
            (Some [''2024-03-01'', '''']) ! 0) = Finite 99"
proof -
  have p: "js_le (Finite 0) (Finite 100) \<and> js_le (Finite 0) (Finite 0)
           \<and> js_le (Finite 0) (Finite (5 / 2))"
    by code_simp
  then have a: "\<forall>p \<in> set [Finite 100, Finite 0, Finite (5 / 2)]. js_le (Finite 0) p" by simp
  have m: "js_mul (Finite 100) (Finite 1.01) = Finite 101"
    "js_mul (Finite 100) (Finite 0.99) = Finite 99"
    by code_simp+
  from converted_prices_valid[OF a, of "\<lambda>n i. ''2024-01-01''" "Some [''2024-03-01'', '''']"]
  show ?thesis using p m by simp
qed

end
